theory Spec2Isabelle
  imports Complex_Main
begin

section \<open>JavaScript values used by the scoring services\<close>

subsection \<open>Numbers\<close>

text \<open>
  A JavaScript \<open>number\<close> is modelled as an exact real, together with the three
  special values that the arithmetic of the services can produce (\<open>0/0\<close> is
  \<open>NaN\<close>, \<open>x/0\<close> is an infinity).  Rounding of IEEE doubles, overflow and
  the sign of zero are not modelled: every finite number is an exact real.
  Array lengths and counters that are only incremented are natural numbers.
\<close>

datatype number = NaN | NegInf | Num real | PosInf

fun js_add :: "number \<Rightarrow> number \<Rightarrow> number" where
  "js_add NaN y = NaN"
| "js_add x NaN = NaN"
| "js_add PosInf NegInf = NaN"
| "js_add NegInf PosInf = NaN"
| "js_add PosInf y = PosInf"
| "js_add x PosInf = PosInf"
| "js_add NegInf y = NegInf"
| "js_add x NegInf = NegInf"
| "js_add (Num a) (Num b) = Num (a + b)"

definition inf_of_sign :: "real \<Rightarrow> number" where
  "inf_of_sign a = (if a = 0 then NaN else if 0 < a then PosInf else NegInf)"

fun js_mul :: "number \<Rightarrow> number \<Rightarrow> number" where
  "js_mul NaN y = NaN"
| "js_mul x NaN = NaN"
| "js_mul (Num a) (Num b) = Num (a * b)"
| "js_mul (Num a) PosInf = inf_of_sign a"
| "js_mul (Num a) NegInf = inf_of_sign (- a)"
| "js_mul PosInf (Num b) = inf_of_sign b"
| "js_mul NegInf (Num b) = inf_of_sign (- b)"
| "js_mul PosInf PosInf = PosInf"
| "js_mul NegInf NegInf = PosInf"
| "js_mul PosInf NegInf = NegInf"
| "js_mul NegInf PosInf = NegInf"

text \<open>Division of two finite numbers, the only division the services perform.\<close>

definition js_div :: "real \<Rightarrow> real \<Rightarrow> number" where
  "js_div a b = (if b = 0 then inf_of_sign a else Num (a / b))"

text \<open>The order of the comparison operators; every comparison with \<open>NaN\<close> is false.\<close>

fun js_le :: "number \<Rightarrow> number \<Rightarrow> bool" where
  "js_le NaN y = False"
| "js_le x NaN = False"
| "js_le NegInf y = True"
| "js_le x PosInf = True"
| "js_le (Num a) (Num b) = (a \<le> b)"
| "js_le PosInf y = False"
| "js_le x NegInf = False"

definition js_lt :: "number \<Rightarrow> number \<Rightarrow> bool" where
  "js_lt x y = (js_le x y \<and> x \<noteq> y)"

text \<open>\<open>Math.min\<close> and \<open>Math.max\<close> of two numbers: \<open>NaN\<close> if either is.\<close>

definition Math_min :: "number \<Rightarrow> number \<Rightarrow> number" where
  "Math_min x y = (if x = NaN \<or> y = NaN then NaN else if js_le x y then x else y)"

definition Math_max :: "number \<Rightarrow> number \<Rightarrow> number" where
  "Math_max x y = (if x = NaN \<or> y = NaN then NaN else if js_le x y then y else x)"

text \<open>\<open>Math.round(x)\<close>: the integer nearest to \<open>x\<close>, halves rounded up.\<close>

definition round_half_up :: "real \<Rightarrow> int" where
  "round_half_up x = \<lfloor>x + 1 / 2\<rfloor>"

fun Math_round :: "number \<Rightarrow> number" where
  "Math_round (Num x) = Num (of_int (round_half_up x))"
| "Math_round x = x"

text \<open>A sub-score lies in its range when it is a finite number between the bounds.\<close>

fun in_range :: "real \<Rightarrow> real \<Rightarrow> number \<Rightarrow> bool" where
  "in_range lo hi (Num x) = (lo \<le> x \<and> x \<le> hi)"
| "in_range lo hi x = False"

subsection \<open>Strings\<close>

text \<open>
  A string is a list of characters.  The model reads the character classes of the
  regular expressions on ASCII: \<open>\s\<close> is space, tab, line feed, vertical tab,
  form feed and carriage return, \<open>\w\<close> is a letter, a digit or the underscore,
  \<open>\d\<close> is a digit, and \<open>toLowerCase\<close> changes the letters A to Z only.
\<close>

definition is_space :: "char \<Rightarrow> bool" where
  "is_space c = (c = CHR 0x20 \<or> c = CHR 0x09 \<or> c = CHR 0x0A \<or> c = CHR 0x0B
                 \<or> c = CHR 0x0C \<or> c = CHR 0x0D)"

definition is_digit :: "char \<Rightarrow> bool" where
  "is_digit c = ((48::nat) \<le> of_char c \<and> (of_char c :: nat) \<le> 57)"

definition is_upper :: "char \<Rightarrow> bool" where
  "is_upper c = ((65::nat) \<le> of_char c \<and> (of_char c :: nat) \<le> 90)"

definition is_lower :: "char \<Rightarrow> bool" where
  "is_lower c = ((97::nat) \<le> of_char c \<and> (of_char c :: nat) \<le> 122)"

definition is_word :: "char \<Rightarrow> bool" where
  "is_word c = (is_upper c \<or> is_lower c \<or> is_digit c \<or> c = CHR ''_'')"

text \<open>
  The lower-case letter of an upper-case one is 32 code points higher: bit 5 of the
  code, which is clear in A to Z, is set.
\<close>

definition lower_char :: "char \<Rightarrow> char" where
  "lower_char c =
     (if is_upper c
      then (case c of Char b0 b1 b2 b3 b4 b5 b6 b7 \<Rightarrow> Char b0 b1 b2 b3 b4 True b6 b7)
      else c)"

definition toLowerCase :: "string \<Rightarrow> string" where
  "toLowerCase s = map lower_char s"

text \<open>
  \<open>s.split(/[...]+/)\<close> for a character class \<open>sep\<close>: the pieces between the
  maximal runs of separators.  As in JavaScript, a separator run at the start or
  the end of the string gives an empty first or last piece, and the empty string
  splits into one empty piece.  \<open>cur\<close> is the piece being read, reversed.
\<close>

fun split_go :: "(char \<Rightarrow> bool) \<Rightarrow> bool \<Rightarrow> string \<Rightarrow> string \<Rightarrow> string list" where
  "split_go sep in_sep cur [] = [rev cur]"
| "split_go sep in_sep cur (c # cs) =
     (if sep c then
        (if in_sep then split_go sep True cur cs
         else rev cur # split_go sep True [] cs)
      else split_go sep False (c # cur) cs)"

definition split_on :: "(char \<Rightarrow> bool) \<Rightarrow> string \<Rightarrow> string list" where
  "split_on sep s = split_go sep False [] s"

text \<open>\<open>s.trim()\<close>: the string without its leading and trailing white space.\<close>

definition trim :: "string \<Rightarrow> string" where
  "trim s = rev (dropWhile is_space (rev (dropWhile is_space s)))"

text \<open>\<open>s.startsWith(p)\<close> and \<open>s.includes(p)\<close>.\<close>

fun starts_with :: "string \<Rightarrow> string \<Rightarrow> bool" where
  "starts_with s [] = True"
| "starts_with [] (p # ps) = False"
| "starts_with (c # cs) (p # ps) = (c = p \<and> starts_with cs ps)"

fun str_includes :: "string \<Rightarrow> string \<Rightarrow> bool" where
  "str_includes [] p = starts_with [] p"
| "str_includes (c # cs) p = (starts_with (c # cs) p \<or> str_includes cs p)"

text \<open>\<open>xs.join(sep)\<close>.\<close>

fun join_str :: "string \<Rightarrow> string list \<Rightarrow> string" where
  "join_str sep [] = []"
| "join_str sep [x] = x"
| "join_str sep (x # y # zs) = x @ sep @ join_str sep (y # zs)"

text \<open>
  A \<open>Set\<close> of strings keeps its elements in insertion order; \<open>set_add\<close> is
  \<open>Set.prototype.add\<close> on the list of elements.
\<close>

definition set_add :: "'a list \<Rightarrow> 'a \<Rightarrow> 'a list" where
  "set_add ks k = (if k \<in> set ks then ks else ks @ [k])"

subsection \<open>Regular expressions\<close>

text \<open>
  A matcher maps a string to the remainders left by every way of matching at its
  start (no remainder: no match).  \<open>regex_test m s\<close> is \<open>RegExp.prototype.test\<close>:
  some position of \<open>s\<close> starts a match.
\<close>

type_synonym matcher = "string \<Rightarrow> string list"

definition m_char :: "(char \<Rightarrow> bool) \<Rightarrow> matcher" where
  "m_char P s = (case s of [] \<Rightarrow> [] | c # cs \<Rightarrow> if P c then [cs] else [])"

definition m_seq :: "matcher \<Rightarrow> matcher \<Rightarrow> matcher" where
  "m_seq a b s = concat (map b (a s))"

definition m_alt :: "matcher \<Rightarrow> matcher \<Rightarrow> matcher" where
  "m_alt a b s = a s @ b s"

definition m_opt :: "matcher \<Rightarrow> matcher" where
  "m_opt a s = a s @ [s]"

fun m_many :: "(char \<Rightarrow> bool) \<Rightarrow> matcher" where
  "m_many P [] = [[]]"
| "m_many P (c # cs) = (if P c then m_many P cs @ [c # cs] else [c # cs])"

definition m_many1 :: "(char \<Rightarrow> bool) \<Rightarrow> matcher" where
  "m_many1 P s = (case s of [] \<Rightarrow> [] | c # cs \<Rightarrow> if P c then m_many P cs else [])"

text \<open>A literal of lower-case letters under the flag \<open>i\<close>.\<close>

fun m_lit :: "string \<Rightarrow> matcher" where
  "m_lit [] s = [s]"
| "m_lit (p # ps) [] = []"
| "m_lit (p # ps) (c # cs) = (if lower_char c = p then m_lit ps cs else [])"

text \<open>\<open>\b\<close> after a word character: the end of the string or a non-word character.\<close>

definition m_word_end :: matcher where
  "m_word_end s = (case s of [] \<Rightarrow> [s] | c # cs \<Rightarrow> if is_word c then [] else [s])"

fun regex_test :: "matcher \<Rightarrow> string \<Rightarrow> bool" where
  "regex_test m [] = (m [] \<noteq> [])"
| "regex_test m (c # cs) = (m (c # cs) \<noteq> [] \<or> regex_test m cs)"

text \<open>The decimal digits of an integer, as template literals print it.\<close>

fun show_nat :: "nat \<Rightarrow> string" where
  "show_nat n =
     (if n < 10 then [''0123456789'' ! n]
      else show_nat (n div 10) @ [''0123456789'' ! (n mod 10)])"

declare show_nat.simps [simp del]

definition show_int :: "int \<Rightarrow> string" where
  "show_int i = (if i < 0 then ''-'' @ show_nat (nat (- i)) else show_nat (nat i))"

section \<open>The resume document (shared/schema.ts, \<open>resumeJsonSchema\<close>)\<close>

text \<open>
  The fields of \<open>ResumeJson\<close> that the scoring services read.  Required fields
  of the schema are plain values, optional ones are options.  \<open>skills\<close> is a
  record from category to skill list, kept in the order \<open>Object.values\<close> and
  \<open>Object.entries\<close> enumerate it.  The optional \<open>projects\<close>,
  \<open>certifications\<close> and \<open>achievements\<close> are read by none of the functions
  below.
\<close>

record PersonalInfo =
  name :: string
  email :: string
  phone :: string
  location :: string
  website :: "string option"
  linkedin :: "string option"
  github :: "string option"

record Experience =
  title :: string
  company :: string
  exp_location :: "string option"
  startDate :: string
  endDate :: string
  bullets :: "string list"

record Education =
  degree :: string
  school :: string
  edu_location :: "string option"
  graduation :: string
  gpa :: "string option"

record ResumeJson =
  personalInfo :: PersonalInfo
  summary :: string
  experience :: "Experience list"
  skills :: "(string \<times> string list) list"
  education :: "Education list option"

section \<open>The deterministic scorer (server/services/ats-engine.ts)\<close>

subsection \<open>Result types\<close>

text \<open>
  The five members of \<open>ATSBreakdown\<close>.  The fields \<open>score\<close> and \<open>total\<close>
  of each member carry a prefix here (\<open>kw_\<close>, \<open>rel_\<close>, \<open>q_\<close>,
  \<open>fmt_\<close>, \<open>rd_\<close>), and the member \<open>keywords\<close> is the field
  \<open>keywordData\<close>.  Scores are numbers; counts and the literal totals are
  natural numbers.
\<close>

record KeywordData =
  kw_score :: number
  kw_matched :: nat
  kw_total :: nat
  kw_missing :: "string list"

record RelevancyData =
  rel_score :: number
  rel_total :: nat

record QuantificationData =
  q_score :: number
  q_total :: nat
  quantifiedBullets :: nat
  totalBullets :: nat

record FormattingData =
  fmt_score :: number
  fmt_total :: nat

record ReadabilityData =
  rd_score :: number
  rd_total :: nat
  gradeLevel :: number

record ATSBreakdown =
  keywordData :: KeywordData
  relevancy :: RelevancyData
  quantification :: QuantificationData
  formatting :: FormattingData
  readability :: ReadabilityData

record ATSResult =
  overall :: number
  breakdown :: ATSBreakdown
  suggestions :: "string list"

subsection \<open>Keyword coverage\<close>

definition COMMON_KEYWORDS :: "string list" where
  "COMMON_KEYWORDS =
     [''javascript'', ''python'', ''java'', ''typescript'', ''c++'', ''c#'', ''php'', ''ruby'',
      ''go'', ''rust'',
      ''react'', ''angular'', ''vue'', ''node.js'', ''express'', ''django'', ''flask'', ''spring'',
      ''laravel'',
      ''mysql'', ''postgresql'', ''mongodb'', ''redis'', ''elasticsearch'', ''sql'', ''nosql'',
      ''aws'', ''azure'', ''gcp'', ''docker'', ''kubernetes'', ''jenkins'', ''terraform'',
      ''ansible'',
      ''git'', ''agile'', ''scrum'', ''rest'', ''api'', ''microservices'', ''ci/cd'', ''testing'']"

definition phrases :: "string list" where
  "phrases =
     [''machine learning'', ''data science'', ''full stack'', ''software engineering'',
      ''web development'', ''mobile development'', ''cloud computing'', ''data analysis'',
      ''project management'', ''quality assurance'', ''user experience'', ''database design'']"

text \<open>
  \<open>replace(/[^\w\s\-\.]/g, ' ')\<close>: every character that is not a word
  character, white space, a hyphen or a dot becomes a space.
\<close>

definition strip_punctuation :: "string \<Rightarrow> string" where
  "strip_punctuation s =
     map (\<lambda>c. if is_word c \<or> is_space c \<or> c = CHR ''-'' \<or> c = CHR ''.'' then c else CHR '' '') s"

text \<open>
  \<open>extractKeywords\<close>: the argument is \<open>string | undefined | null\<close>; \<open>None\<close>
  and the empty string are both falsy.  The result is the \<open>Set\<close> in insertion
  order: the words longer than 2, then the phrases found in the text, written
  without their white space.
\<close>

definition extractKeywords :: "string option \<Rightarrow> string list" where
  "extractKeywords text =
     (case text of
        None \<Rightarrow> []
      | Some t \<Rightarrow>
          if t = [] then []
          else
            (let words = filter (\<lambda>word. length word > 2)
                           (split_on is_space (strip_punctuation (toLowerCase t)));
                 keywords = foldl set_add [] words
             in foldl (\<lambda>ks phrase.
                         if str_includes (toLowerCase t) phrase
                         then set_add ks (filter (\<lambda>c. \<not> is_space c) phrase)
                         else ks)
                      keywords phrases))"

definition importantKeywords :: "string list \<Rightarrow> string list" where
  "importantKeywords jdKeywords =
     filter (\<lambda>keyword. length keyword > 3 \<or> keyword \<in> set COMMON_KEYWORDS) jdKeywords"

definition calculateKeywordScore :: "string option \<Rightarrow> string option \<Rightarrow> KeywordData" where
  "calculateKeywordScore resumeText jdText =
     (let jdKeywords = extractKeywords jdText;
          resumeKeywords = extractKeywords resumeText;
          importantJDKeywords = importantKeywords jdKeywords;
          matchedCount = length (filter (\<lambda>keyword. keyword \<in> set resumeKeywords) importantJDKeywords);
          missing = take 10 (filter (\<lambda>keyword. keyword \<notin> set resumeKeywords) importantJDKeywords);
          total = length importantJDKeywords;
          score = (if total > 0
                   then Math_round (js_mul (js_div (real matchedCount) (real total)) (Num 40))
                   else Num 0)
      in \<lparr>kw_score = score, kw_matched = matchedCount, kw_total = total, kw_missing = missing\<rparr>)"

subsection \<open>Quantification\<close>

text \<open>
  The metric pattern
  \<open>/\d+[%$]?|\$\d+|\d+\+?\s*(users?|customers?|projects?|team|people|million|thousand|k\b)/i\<close>.
\<close>

definition unit_words :: matcher where
  "unit_words =
     m_alt (m_seq (m_lit ''user'') (m_opt (m_lit ''s'')))
    (m_alt (m_seq (m_lit ''customer'') (m_opt (m_lit ''s'')))
    (m_alt (m_seq (m_lit ''project'') (m_opt (m_lit ''s'')))
    (m_alt (m_lit ''team'')
    (m_alt (m_lit ''people'')
    (m_alt (m_lit ''million'')
    (m_alt (m_lit ''thousand'')
           (m_seq (m_lit ''k'') m_word_end)))))))"

definition metric_pattern :: matcher where
  "metric_pattern =
     m_alt (m_seq (m_many1 is_digit) (m_opt (m_char (\<lambda>c. c = CHR ''%'' \<or> c = CHR ''$''))))
    (m_alt (m_seq (m_char (\<lambda>c. c = CHR ''$'')) (m_many1 is_digit))
           (m_seq (m_many1 is_digit)
             (m_seq (m_opt (m_char (\<lambda>c. c = CHR ''+'')))
               (m_seq (m_many is_space) unit_words))))"

definition is_quantified :: "string \<Rightarrow> bool" where
  "is_quantified bullet = regex_test metric_pattern bullet"

text \<open>
  The two nested \<open>forEach\<close> calls visit the bullets of all experience entries in
  order and update the counters \<open>totalBullets\<close> and \<open>quantifiedBullets\<close>,
  here the pair \<open>(tb, qb)\<close>.
\<close>

definition count_bullet :: "nat \<times> nat \<Rightarrow> string \<Rightarrow> nat \<times> nat" where
  "count_bullet acc bullet =
     (case acc of (tb, qb) \<Rightarrow> (tb + 1, if is_quantified bullet then qb + 1 else qb))"

definition count_bullets :: "ResumeJson \<Rightarrow> nat \<times> nat" where
  "count_bullets resume =
     foldl (\<lambda>acc exp. foldl count_bullet acc (bullets exp)) (0, 0) (experience resume)"

definition calculateQuantificationScore :: "ResumeJson \<Rightarrow> QuantificationData" where
  "calculateQuantificationScore resume =
     (case count_bullets resume of (tb, qb) \<Rightarrow>
        (let percentage = (if tb > 0 then js_div (real qb) (real tb) else Num 0);
             score = Math_round (js_mul percentage (Num 15))
         in \<lparr>q_score = score, q_total = 15, quantifiedBullets = qb, totalBullets = tb\<rparr>))"

subsection \<open>Structural formatting\<close>

text \<open>
  The score starts at 10 and loses the penalties of the checks in turn.  A string
  is falsy when it is empty.  \<open>resume.skills\<close> is an object in every
  \<open>ResumeJson\<close>, so the check \<open>!resume.skills\<close> never deducts and has no
  line here.
\<close>

definition bullet_penalty :: "real \<Rightarrow> string \<Rightarrow> real" where
  "bullet_penalty sc bullet = (if length bullet < 20 \<or> length bullet > 150 then sc - 0.5 else sc)"

definition calculateFormattingScore :: "ResumeJson \<Rightarrow> FormattingData" where
  "calculateFormattingScore resume =
     (let s0 = (10 :: real);
          s1 = (if name (personalInfo resume) = [] \<or> email (personalInfo resume) = []
                then s0 - 2 else s0);
          s2 = (if summary resume = [] \<or> length (summary resume) < 50 then s1 - 1 else s1);
          s3 = (if length (experience resume) = 0 then s2 - 3 else s2);
          s4 = foldl (\<lambda>sc exp. foldl bullet_penalty sc (bullets exp)) s3 (experience resume)
      in \<lparr>fmt_score = Math_max (Num 0) (Math_round (Num s4)), fmt_total = 10\<rparr>)"

subsection \<open>Readability\<close>

definition is_sentence_end :: "char \<Rightarrow> bool" where
  "is_sentence_end c = (c = CHR ''.'' \<or> c = CHR ''!'' \<or> c = CHR ''?'')"

definition is_vowel :: "char \<Rightarrow> bool" where
  "is_vowel c = (c \<in> set ''aeiouAEIOU'')"

definition sentences_of :: "string \<Rightarrow> string list" where
  "sentences_of text = filter (\<lambda>s. length (trim s) > 0) (split_on is_sentence_end text)"

definition words_of :: "string \<Rightarrow> string list" where
  "words_of text = filter (\<lambda>w. length w > 0) (split_on is_space text)"

definition syllables_of :: "string list \<Rightarrow> nat" where
  "syllables_of ws = foldl (\<lambda>count word. count + max 1 (length (filter is_vowel word))) 0 ws"

text \<open>
  The estimate \<open>gradeLevel\<close> of the source, as a function of the text; it is
  computed only when the text has a sentence and a word.
\<close>

definition grade_estimate :: "string \<Rightarrow> real" where
  "grade_estimate text =
     (let avgSentenceLength = real (length (words_of text)) / real (length (sentences_of text));
          avgSyllablesPerWord = real (syllables_of (words_of text)) / real (length (words_of text))
      in 0.39 * avgSentenceLength + 11.8 * avgSyllablesPerWord - 15.59)"

definition calculateReadabilityScore :: "string \<Rightarrow> ReadabilityData" where
  "calculateReadabilityScore text =
     (if length (sentences_of text) = 0 \<or> length (words_of text) = 0
      then \<lparr>rd_score = Num 5, rd_total = 10, gradeLevel = Num 12\<rparr>
      else
        (let g = grade_estimate text;
             readabilityScore = (if 8 \<le> g \<and> g \<le> 12 then 10
                                 else if 6 \<le> g \<and> g \<le> 14 then 7
                                 else 4)
         in \<lparr>rd_score = Num readabilityScore, rd_total = 10,
             gradeLevel = Num (of_int (round_half_up (g * 10)) / 10)\<rparr>))"

subsection \<open>Suggestions\<close>

definition generateSuggestions :: "ATSBreakdown \<Rightarrow> string list" where
  "generateSuggestions b =
     take 5
       ((if length (kw_missing (keywordData b)) > 0
         then [''Add missing keywords: '' @ join_str '', '' (take 3 (kw_missing (keywordData b)))]
         else []) @
        (if js_lt (q_score (quantification b)) (Num 10)
         then [''Add metrics to '' @
               show_int (int (totalBullets (quantification b))
                         - int (quantifiedBullets (quantification b))) @
               '' more bullet points (%, $, #users)'']
         else []) @
        (if js_lt (Num 12) (gradeLevel (readability b))
         then [''Simplify sentence structure to improve readability'']
         else []) @
        (if js_lt (rel_score (relevancy b)) (Num 20)
         then [''Better align experience descriptions with job requirements'']
         else []) @
        (if js_lt (fmt_score (formatting b)) (Num 8)
         then [''Improve resume structure and ensure all required sections are complete'']
         else []))"

subsection \<open>The scoring functions\<close>

text \<open>
  The pieces of the resume text, before the empty ones are dropped and the rest
  is joined with spaces.
\<close>

definition resume_parts :: "ResumeJson \<Rightarrow> string list" where
  "resume_parts resume =
     [name (personalInfo resume), email (personalInfo resume), summary resume] @
     concat (map (\<lambda>exp. [title exp, company exp] @ bullets exp) (experience resume)) @
     filter (\<lambda>s. s \<noteq> []) (concat (map snd (skills resume))) @
     concat (map (\<lambda>edu. [degree edu, school edu])
               (case education resume of None \<Rightarrow> [] | Some es \<Rightarrow> es))"

definition sum_of_scores :: "ATSBreakdown \<Rightarrow> number" where
  "sum_of_scores b =
     js_add (js_add (js_add (js_add (kw_score (keywordData b)) (rel_score (relevancy b)))
                       (q_score (quantification b)))
               (fmt_score (formatting b)))
       (rd_score (readability b))"

definition computeATSScore :: "ResumeJson \<Rightarrow> string \<Rightarrow> ATSResult" where
  "computeATSScore resume jdText =
     (let resumeText = join_str '' '' (filter (\<lambda>s. s \<noteq> []) (resume_parts resume));
          keywordData = calculateKeywordScore (Some resumeText) (Some jdText);
          quantificationData = calculateQuantificationScore resume;
          formattingData = calculateFormattingScore resume;
          readabilityData = calculateReadabilityScore (resumeText @ '' '' @ jdText);
          relevancyScore =
            Math_min (Num 25)
              (Math_round (js_add (js_mul (kw_score keywordData) (Num 0.6)) (Num 10)));
          b = \<lparr>keywordData = keywordData,
               relevancy = \<lparr>rel_score = relevancyScore, rel_total = 25\<rparr>,
               quantification = quantificationData,
               formatting = formattingData,
               readability = readabilityData\<rparr>
      in \<lparr>overall = sum_of_scores b, breakdown = b, suggestions = generateSuggestions b\<rparr>)"

text \<open>
  \<open>calculateCosineSimilarity\<close>: the loop runs over the indices of \<open>a\<close>, which has
  the length of \<open>b\<close>, and updates \<open>(dotProduct, normA, normB)\<close>.
\<close>

definition cosine_step :: "real \<times> real \<times> real \<Rightarrow> real \<times> real \<Rightarrow> real \<times> real \<times> real" where
  "cosine_step acc p =
     (case acc of (dotProduct, normA, normB) \<Rightarrow>
        (dotProduct + fst p * snd p, normA + fst p * fst p, normB + snd p * snd p))"

definition calculateCosineSimilarity :: "real list \<Rightarrow> real list \<Rightarrow> number" where
  "calculateCosineSimilarity a b =
     (if length a \<noteq> length b then Num 0
      else (case foldl cosine_step (0, 0, 0) (zip a b) of
              (dotProduct, normA, normB) \<Rightarrow> js_div dotProduct (sqrt normA * sqrt normB)))"

text \<open>
  \<open>computeATSScoreWithEmbeddings\<close>: an absent embedding is \<open>None\<close>; an array,
  also the empty one, is truthy.  The assignment to the base result replaces its
  relevancy score and its overall score.
\<close>

definition computeATSScoreWithEmbeddings ::
    "ResumeJson \<Rightarrow> string \<Rightarrow> real list option \<Rightarrow> real list option \<Rightarrow> ATSResult" where
  "computeATSScoreWithEmbeddings resume jdText resumeEmbedding jdEmbedding =
     (let baseResult = computeATSScore resume jdText
      in case (resumeEmbedding, jdEmbedding) of
           (Some re, Some je) \<Rightarrow>
             (let cosineSimilarity = calculateCosineSimilarity re je;
                  enhancedRelevancyScore = Math_round (js_mul cosineSimilarity (Num 25));
                  b = (breakdown baseResult)
                        \<lparr>relevancy := (relevancy (breakdown baseResult))
                                         \<lparr>rel_score := enhancedRelevancyScore\<rparr>\<rparr>
              in baseResult\<lparr>breakdown := b, overall := sum_of_scores b\<rparr>)
         | _ \<Rightarrow> baseResult)"

subsection \<open>Auxiliary notions for the statements\<close>

text \<open>The bullets of all experience entries, in the order they are visited.\<close>

definition all_bullets :: "ResumeJson \<Rightarrow> string list" where
  "all_bullets resume = concat (map bullets (experience resume))"

text \<open>
  The keyword score as the specification words it: the keywords of a text are
  its words longer than 3 and the phrases of the fixed list found in it, for
  the target and for the candidate alike; the score is
  \<open>round(40 * matched / total)\<close>, and 0 when the target has no keyword.
\<close>

definition spec_keywords :: "string option \<Rightarrow> string list" where
  "spec_keywords text = filter (\<lambda>keyword. length keyword > 3) (extractKeywords text)"

definition spec_keyword_score :: "string option \<Rightarrow> string option \<Rightarrow> int" where
  "spec_keyword_score resumeText jdText =
     (let jdKeywords = spec_keywords jdText;
          matchedCount = length (filter (\<lambda>keyword. keyword \<in> set (spec_keywords resumeText))
                                   jdKeywords);
          totalCount = length jdKeywords
      in if totalCount = 0 then 0
         else round_half_up (40 * real matchedCount / real totalCount))"

section \<open>Quota gate (server/services/gemini-ats-scorer.ts)\<close>

text \<open>
  The module-level variables \<open>dailyRequestCount\<close> and \<open>lastResetDate\<close>; the
  date string of the current day (\<open>new Date().toDateString()\<close>) is an input of
  every check.
\<close>

record quota =
  dailyRequestCount :: nat
  lastResetDate :: string

definition MAX_DAILY_REQUESTS :: nat where
  "MAX_DAILY_REQUESTS = 45"

definition checkQuotaLimit :: "string \<Rightarrow> quota \<Rightarrow> bool \<times> quota" where
  "checkQuotaLimit today q =
     (let q' = (if today \<noteq> lastResetDate q
                then q\<lparr>dailyRequestCount := 0, lastResetDate := today\<rparr>
                else q)
      in (dailyRequestCount q' < MAX_DAILY_REQUESTS, q'))"

definition incrementQuotaCount :: "quota \<Rightarrow> quota" where
  "incrementQuotaCount q = q\<lparr>dailyRequestCount := dailyRequestCount q + 1\<rparr>"

section \<open>The assisted scorer (server/services/gemini-ats-scorer.ts)\<close>

subsection \<open>Parsed JSON and its coercions\<close>

text \<open>
  The value \<open>JSON.parse\<close> returns.  A property that is not there is
  \<open>undefined\<close>, here \<open>None\<close>.  In an object with a repeated key the last
  entry counts.
\<close>

datatype json =
    JNull
  | JBool bool
  | JNumber real
  | JString string
  | JArray "json list"
  | JObject "(string \<times> json) list"

text \<open>\<open>v.key\<close> for a value that is not \<open>null\<close>.\<close>

definition member_of :: "json \<Rightarrow> string \<Rightarrow> json option" where
  "member_of v key = (case v of JObject kvs \<Rightarrow> map_of (rev kvs) key | _ \<Rightarrow> None)"

text \<open>\<open>v?.key\<close>: \<open>undefined\<close> when \<open>v\<close> is \<open>undefined\<close> or \<open>null\<close>.\<close>

definition opt_member :: "json option \<Rightarrow> string \<Rightarrow> json option" where
  "opt_member v key =
     (case v of None \<Rightarrow> None | Some JNull \<Rightarrow> None | Some x \<Rightarrow> member_of x key)"

text \<open>
  \<open>v || d\<close> for a number \<open>d\<close>: \<open>undefined\<close>, \<open>null\<close>, \<open>false\<close>, \<open>0\<close>
  and the empty string are falsy.
\<close>

definition falsy :: "json option \<Rightarrow> bool" where
  "falsy v = (v = None \<or> v = Some JNull \<or> v = Some (JBool False) \<or> v = Some (JNumber 0)
              \<or> v = Some (JString []))"

definition or_default :: "json option \<Rightarrow> real \<Rightarrow> json" where
  "or_default v d = (case v of None \<Rightarrow> JNumber d | Some x \<Rightarrow> if falsy v then JNumber d else x)"

text \<open>
  \<open>ToNumber\<close>, which \<open>Math.max\<close> applies to its arguments.  The conversion of
  a string, an array or an object goes through the text of the value; it is the
  parameter \<open>conv\<close>.
\<close>

definition ToNumber :: "(json \<Rightarrow> number) \<Rightarrow> json \<Rightarrow> number" where
  "ToNumber conv v =
     (case v of
        JNull \<Rightarrow> Num 0
      | JBool b \<Rightarrow> Num (if b then 1 else 0)
      | JNumber x \<Rightarrow> Num x
      | _ \<Rightarrow> conv v)"

text \<open>\<open>Array.isArray(v) ? v.slice(0, 5) : dflt\<close>.\<close>

definition array_prefix :: "json option \<Rightarrow> json list \<Rightarrow> json list" where
  "array_prefix v dflt = (case v of Some (JArray xs) \<Rightarrow> take 5 xs | _ \<Rightarrow> dflt)"

subsection \<open>Result types\<close>

text \<open>
  The module declares \<open>ATSBreakdown\<close> and \<open>ATSResult\<close> again; here every
  number can come from the response, and the lists hold what the response
  holds.  The types and fields carry the suffix \<open>_g\<close> or the prefix \<open>g\<close>.
\<close>

record KeywordData_g =
  gkw_score :: number
  gkw_matched :: number
  gkw_total :: number
  gkw_missing :: "json list"

record RelevancyData_g =
  grel_score :: number
  grel_total :: number

record QuantificationData_g =
  gq_score :: number
  gq_total :: number
  gq_quantifiedBullets :: number
  gq_totalBullets :: number

record FormattingData_g =
  gfmt_score :: number
  gfmt_total :: number

record ReadabilityData_g =
  grd_score :: number
  grd_total :: number
  grd_gradeLevel :: number

record ATSBreakdown_g =
  gkeywords :: KeywordData_g
  grelevancy :: RelevancyData_g
  gquantification :: QuantificationData_g
  gformatting :: FormattingData_g
  greadability :: ReadabilityData_g

record ATSResult_g =
  goverall :: number
  gbreakdown :: ATSBreakdown_g
  gsuggestions :: "json list"

definition overall_g :: "ATSBreakdown_g \<Rightarrow> number" where
  "overall_g b =
     js_add (js_add (js_add (js_add (gkw_score (gkeywords b)) (grel_score (grelevancy b)))
                       (gq_score (gquantification b)))
               (gfmt_score (gformatting b)))
       (grd_score (greadability b))"

subsection \<open>The resume as prompt text\<close>

definition newline :: string where
  "newline = [CHR 0x0A]"

text \<open>The bullet sign U+2022 that starts each bullet line, as its UTF-8 bytes.\<close>

definition bullet_sign :: string where
  "bullet_sign = [CHR 0xE2, CHR 0x80, CHR 0xA2]"

text \<open>\<open>s || 'N/A'\<close>.\<close>

definition or_NA :: "string \<Rightarrow> string" where
  "or_NA s = (if s = [] then ''N/A'' else s)"

text \<open>\<open>if (s) parts.push(label + s)\<close> for an optional string.\<close>

definition opt_line :: "string \<Rightarrow> string option \<Rightarrow> string list" where
  "opt_line label s = (case s of None \<Rightarrow> [] | Some x \<Rightarrow> if x = [] then [] else [label @ x])"

definition experience_lines :: "Experience \<Rightarrow> string list" where
  "experience_lines e =
     [newline @ or_NA (title e) @ '' at '' @ or_NA (company e),
      or_NA (startDate e) @ '' - '' @ or_NA (endDate e)] @
     map (\<lambda>bullet. bullet_sign @ '' '' @ bullet) (bullets e)"

definition education_lines :: "Education \<Rightarrow> string list" where
  "education_lines edu =
     [or_NA (degree edu) @ '' - '' @ or_NA (school edu)] @
     (if graduation edu = [] then [] else [''Graduation: '' @ graduation edu]) @
     opt_line ''GPA: '' (gpa edu)"

definition convertResumeToText :: "ResumeJson \<Rightarrow> string" where
  "convertResumeToText resume =
     join_str newline
       ([''Name: '' @ or_NA (name (personalInfo resume)),
         ''Email: '' @ or_NA (email (personalInfo resume)),
         ''Phone: '' @ or_NA (phone (personalInfo resume)),
         ''Location: '' @ or_NA (location (personalInfo resume))] @
        opt_line ''LinkedIn: '' (linkedin (personalInfo resume)) @
        opt_line ''GitHub: '' (github (personalInfo resume)) @
        (if summary resume = [] then []
         else [newline @ ''PROFESSIONAL SUMMARY:'' @ newline @ summary resume]) @
        (if experience resume = [] then []
         else (newline @ ''WORK EXPERIENCE:'') # concat (map experience_lines (experience resume))) @
        ((newline @ ''SKILLS:'') #
           concat (map (\<lambda>(category, sk). if sk = [] then []
                                          else [category @ '': '' @ join_str '', '' sk])
                     (skills resume))) @
        (case education resume of
           None \<Rightarrow> []
         | Some es \<Rightarrow>
             if es = [] then []
             else (newline @ ''EDUCATION:'') # concat (map education_lines es)))"

subsection \<open>The fallback score\<close>

text \<open>
  The optional chaining of the source (\<open>resume.experience?.forEach\<close>,
  \<open>resume.personalInfo?.name\<close>) guards members that every \<open>ResumeJson\<close> has,
  and \<open>!resume.skills\<close> never deducts; the bullet loop is the one of the
  deterministic scorer, with the same pattern.
\<close>

definition STOP_WORDS :: "string list" where
  "STOP_WORDS =
     [''the'', ''and'', ''for'', ''are'', ''but'', ''not'', ''you'', ''all'', ''can'', ''had'',
      ''her'', ''was'', ''one'', ''our'', ''out'', ''day'', ''get'', ''has'', ''him'', ''his'',
      ''how'', ''may'', ''new'', ''now'', ''old'', ''see'', ''two'', ''way'', ''who'', ''boy'',
      ''did'', ''its'', ''let'', ''put'', ''say'', ''she'', ''too'', ''use'']"

text \<open>
  \<open>s.match(/\b\w{3,}\b/g) || []\<close>: the maximal runs of word characters that
  have at least 3 characters.
\<close>

definition word_runs3 :: "string \<Rightarrow> string list" where
  "word_runs3 s = filter (\<lambda>w. 3 \<le> length w) (split_on (\<lambda>c. \<not> is_word c) s)"

definition commonKeywords_of :: "string \<Rightarrow> string list" where
  "commonKeywords_of jdText =
     take 20 (filter (\<lambda>word. word \<notin> set STOP_WORDS \<and> length word > 3)
                (foldl set_add [] (word_runs3 (toLowerCase jdText))))"

definition getFallbackATSScore :: "ResumeJson \<Rightarrow> string \<Rightarrow> ATSResult_g" where
  "getFallbackATSScore resume jdText =
     (let resumeText = toLowerCase (convertResumeToText resume);
          commonKeywords = commonKeywords_of jdText;
          matchedKeywords = filter (\<lambda>keyword. str_includes resumeText keyword) commonKeywords;
          keywordScore =
            Math_round (js_mul (js_div (real (length matchedKeywords))
                                       (real (max (length commonKeywords) 1))) (Num 40));
          counts = count_bullets resume;
          quantificationScore =
            (if fst counts > 0
             then Math_round (js_mul (js_div (real (snd counts)) (real (fst counts))) (Num 15))
             else Num 0);
          f0 = (10 :: real);
          f1 = (if name (personalInfo resume) = [] \<or> email (personalInfo resume) = []
                then f0 - 3 else f0);
          f2 = (if summary resume = [] \<or> length (summary resume) < 50 then f1 - 2 else f1);
          f3 = (if experience resume = [] then f2 - 3 else f2);
          b = \<lparr>gkeywords =
                 \<lparr>gkw_score = keywordScore,
                  gkw_matched = Num (real (length matchedKeywords)),
                  gkw_total = Num (real (length commonKeywords)),
                  gkw_missing =
                    map JString (take 5 (filter (\<lambda>kw. kw \<notin> set matchedKeywords) commonKeywords))\<rparr>,
               grelevancy =
                 \<lparr>grel_score = Math_min (Num 25) (js_add keywordScore (Num 5)),
                  grel_total = Num 25\<rparr>,
               gquantification =
                 \<lparr>gq_score = quantificationScore, gq_total = Num 15,
                  gq_quantifiedBullets = Num (real (snd counts)),
                  gq_totalBullets = Num (real (fst counts))\<rparr>,
               gformatting = \<lparr>gfmt_score = Math_max (Num 0) (Num f3), gfmt_total = Num 10\<rparr>,
               greadability = \<lparr>grd_score = Num 8, grd_total = Num 10, grd_gradeLevel = Num 10\<rparr>\<rparr>
      in \<lparr>goverall = overall_g b, gbreakdown = b,
          gsuggestions =
            map JString
              [''Add more relevant keywords from the job description'',
               ''Include specific metrics and numbers in experience bullets'',
               ''Ensure all required sections are complete and well-formatted'',
               ''Tailor your experience descriptions to match job requirements'']\<rparr>)"

subsection \<open>The scoring call\<close>

text \<open>What a step of the call can throw.\<close>

datatype error =
    ConfigError
  | ServiceError string
  | NoJsonFound
  | SyntaxError
  | TypeError

text \<open>
  The surroundings of a call: the two environment variables, the date string of
  the day (\<open>new Date().toDateString()\<close>), the request to the model (\<open>generateContent\<close> on the prompt, which is
  a fixed template around the resume text and the target text, followed by
  \<open>response.text()\<close>), and the runtime's \<open>JSON.parse\<close> and the conversion
  to numbers of strings, arrays and objects.
\<close>

record world =
  GEMINI_API_KEY :: "string option"
  VITE_GEMINI_API_KEY :: "string option"
  toDateString :: string
  generateContent :: "string \<Rightarrow> string \<Rightarrow> error + string"
  JSON_parse :: "string \<Rightarrow> error + json"
  conv_number :: "json \<Rightarrow> number"

text \<open>The module state: the quota variables and whether \<open>genAI\<close> is set.\<close>

record scorer_state =
  quota_state :: quota
  genAI :: bool

text \<open>\<open>process.env.GEMINI_API_KEY || process.env.VITE_GEMINI_API_KEY\<close>.\<close>

definition api_key :: "world \<Rightarrow> string option" where
  "api_key w =
     (case GEMINI_API_KEY w of
        None \<Rightarrow> VITE_GEMINI_API_KEY w
      | Some k \<Rightarrow> if k = [] then VITE_GEMINI_API_KEY w else Some k)"

text \<open>\<open>!apiKey || apiKey === ''\<close> or \<open>apiKey\<close> is one of the placeholders.\<close>

definition key_unusable :: "string option \<Rightarrow> string list \<Rightarrow> bool" where
  "key_unusable k placeholders =
     (case k of None \<Rightarrow> True | Some x \<Rightarrow> x = [] \<or> x \<in> set placeholders)"

definition getGeminiClient :: "world \<Rightarrow> scorer_state \<Rightarrow> error + scorer_state" where
  "getGeminiClient w st =
     (if \<not> genAI st then
        (if key_unusable (api_key w) [''your_gemini_api_key_here''] then Inl ConfigError
         else Inr (st\<lparr>genAI := True\<rparr>))
      else Inr st)"

text \<open>\<open>text.match(/\{[\s\S]*\}/)\<close>: from the first \<open>{\<close> to the last \<open>}\<close> after it.\<close>

definition json_match :: "string \<Rightarrow> string option" where
  "json_match text =
     (let from_brace = dropWhile (\<lambda>c. c \<noteq> CHR ''{'') text;
          upto_brace = rev (dropWhile (\<lambda>c. c \<noteq> CHR ''}'') (rev from_brace))
      in if upto_brace = [] then None else Some upto_brace)"

text \<open>The inner \<open>try\<close> block: the parsed analysis, or what it throws.\<close>

definition parse_analysis :: "world \<Rightarrow> string \<Rightarrow> error + json" where
  "parse_analysis w text =
     (case json_match text of None \<Rightarrow> Inl NoJsonFound | Some m \<Rightarrow> JSON_parse w m)"

text \<open>\<open>Math.min(hi, Math.max(lo, v || d))\<close> and \<open>Math.max(lo, v || d)\<close>.\<close>

definition at_least :: "world \<Rightarrow> real \<Rightarrow> json option \<Rightarrow> real \<Rightarrow> number" where
  "at_least w lo v d = Math_max (Num lo) (ToNumber (conv_number w) (or_default v d))"

definition clamp_score :: "world \<Rightarrow> real \<Rightarrow> json option \<Rightarrow> number" where
  "clamp_score w hi v = Math_min (Num hi) (at_least w 0 v 0)"

text \<open>\<open>analysis.section?.key\<close>.\<close>

definition field_of :: "json \<Rightarrow> string \<Rightarrow> string \<Rightarrow> json option" where
  "field_of analysis section key = opt_member (member_of analysis section) key"

text \<open>The result built from a parsed analysis (``validate and sanitize scores'').\<close>

definition sanitize :: "world \<Rightarrow> json \<Rightarrow> ATSResult_g" where
  "sanitize w analysis =
     (let b = \<lparr>gkeywords =
                 \<lparr>gkw_score = clamp_score w 40 (field_of analysis ''keywords'' ''score''),
                  gkw_matched = at_least w 0 (field_of analysis ''keywords'' ''matched'') 0,
                  gkw_total = at_least w 1 (field_of analysis ''keywords'' ''total'') 1,
                  gkw_missing = array_prefix (field_of analysis ''keywords'' ''missing'') []\<rparr>,
               grelevancy =
                 \<lparr>grel_score = clamp_score w 25 (field_of analysis ''relevancy'' ''score''),
                  grel_total = Num 25\<rparr>,
               gquantification =
                 \<lparr>gq_score = clamp_score w 15 (field_of analysis ''quantification'' ''score''),
                  gq_total = Num 15,
                  gq_quantifiedBullets =
                    at_least w 0 (field_of analysis ''quantification'' ''quantifiedBullets'') 0,
                  gq_totalBullets =
                    at_least w 1 (field_of analysis ''quantification'' ''totalBullets'') 1\<rparr>,
               gformatting =
                 \<lparr>gfmt_score = clamp_score w 10 (field_of analysis ''formatting'' ''score''),
                  gfmt_total = Num 10\<rparr>,
               greadability =
                 \<lparr>grd_score = clamp_score w 10 (field_of analysis ''readability'' ''score''),
                  grd_total = Num 10,
                  grd_gradeLevel = at_least w 1 (field_of analysis ''readability'' ''gradeLevel'') 10\<rparr>\<rparr>
      in \<lparr>goverall = overall_g b, gbreakdown = b,
          gsuggestions = array_prefix (member_of analysis ''suggestions'')
                           [JString ''Resume analyzed successfully'']\<rparr>)"

text \<open>
  The body of the outer \<open>try\<close>: a returned result or a thrown error, with the
  module state after it.  A property read on \<open>null\<close> throws a \<open>TypeError\<close>.
\<close>

definition gemini_try ::
    "world \<Rightarrow> scorer_state \<Rightarrow> ResumeJson \<Rightarrow> string \<Rightarrow> (error + ATSResult_g) \<times> scorer_state" where
  "gemini_try w st resume jdText =
     (if key_unusable (api_key w) [''your_gemini_api_key_here'', ''default_key'']
      then (Inr (getFallbackATSScore resume jdText), st)
      else
        (case checkQuotaLimit (toDateString w) (quota_state st) of
           (has_capacity, q1) \<Rightarrow>
             (let st1 = st\<lparr>quota_state := q1\<rparr> in
              if \<not> has_capacity then (Inr (getFallbackATSScore resume jdText), st1)
              else
                (case getGeminiClient w st1 of
                   Inl e \<Rightarrow> (Inl e, st1)
                 | Inr st2 \<Rightarrow>
                     (let st3 = st2\<lparr>quota_state := incrementQuotaCount (quota_state st2)\<rparr> in
                      case generateContent w (convertResumeToText resume) jdText of
                        Inl e \<Rightarrow> (Inl e, st3)
                      | Inr text \<Rightarrow>
                          (case parse_analysis w text of
                             Inl e \<Rightarrow> (Inr (getFallbackATSScore resume jdText), st3)
                           | Inr analysis \<Rightarrow>
                               if analysis = JNull then (Inl TypeError, st3)
                               else (Inr (sanitize w analysis), st3)))))))"

text \<open>
  \<open>computeGeminiATSScore\<close>: the outer \<open>catch\<close> turns every thrown error into
  the fallback score.  The first component is the outcome of the promise:
  \<open>Inr\<close> a result, \<open>Inl\<close> a rejection.
\<close>

definition computeGeminiATSScore ::
    "world \<Rightarrow> scorer_state \<Rightarrow> ResumeJson \<Rightarrow> string \<Rightarrow> (error + ATSResult_g) \<times> scorer_state" where
  "computeGeminiATSScore w st resume jdText =
     (case gemini_try w st resume jdText of
        (Inl e, st') \<Rightarrow> (Inr (getFallbackATSScore resume jdText), st')
      | (Inr r, st') \<Rightarrow> (Inr r, st'))"

subsection \<open>Auxiliary notions for the statements\<close>

text \<open>
  A value of the response that converts to a number without reading its text:
  an absent one, \<open>null\<close>, a boolean or a number.
\<close>

definition numeric_or_absent :: "json option \<Rightarrow> bool" where
  "numeric_or_absent v =
     (case v of
        None \<Rightarrow> True
      | Some JNull \<Rightarrow> True
      | Some (JBool b) \<Rightarrow> True
      | Some (JNumber x) \<Rightarrow> True
      | Some other \<Rightarrow> False)"

section \<open>The broadcast registry (server/routes.ts)\<close>

text \<open>
  \<open>wsConnections\<close> maps a channel to the \<open>Set\<close> of its connections, here the
  list of the connections in insertion order; a channel without an entry maps to
  \<open>None\<close>.  Connections are values of a type \<open>'ws\<close>; the state of each one
  is read through \<open>readyState\<close>.
\<close>

datatype readyState = CONNECTING | OPEN | CLOSING | CLOSED





section \<open>The batch processor (server/routes.ts, server/storage.ts)\<close>

subsection \<open>Stored data\<close>

text \<open>
  The columns the batch processor reads and writes.  Time stamps are left out.
  The tables are maps from the primary key; reading and writing them does not
  fail.  \<open>randomUUID()\<close> is the next element of \<open>uuid_source\<close>.
\<close>

record JobDescription =
  jd_id :: string
  jd_title :: string
  jd_company :: "string option"
  rawText :: string

record Resume =
  resume_id :: string
  resume_json :: ResumeJson

record CoverLetter =
  cl_id :: string
  cl_userId :: string
  cl_resumeId :: string
  cl_jdId :: string
  cl_tone :: string
  contentMd :: string
  version :: nat

record BatchResult =
  res_jdId :: string
  res_jdTitle :: string
  res_coverId :: "string option"
  res_error :: "string option"
  success :: bool

record BatchPayload =
  resumeId :: string
  jdIds :: "string list"
  tone :: string
  wordCount :: nat
  userId :: string

datatype artifacts = Results "BatchResult list" | Failure string

record Job =
  job_id :: string
  job_type :: string
  job_payload :: BatchPayload
  status :: string
  job_artifacts :: "artifacts option"

record storage =
  jobs :: "string \<Rightarrow> Job option"
  resumes :: "string \<Rightarrow> Resume option"
  jobDescriptions :: "string \<Rightarrow> JobDescription option"
  coverLetters :: "CoverLetter list"
  uuid_source :: "nat \<Rightarrow> string"
  uuid_count :: nat

definition getJob :: "storage \<Rightarrow> string \<Rightarrow> Job option" where
  "getJob st ident = jobs st ident"

definition createJob :: "storage \<Rightarrow> string \<Rightarrow> BatchPayload \<Rightarrow> string \<Rightarrow> Job \<times> storage" where
  "createJob st ty p stat =
     (let ident = uuid_source st (uuid_count st);
          job = \<lparr>job_id = ident, job_type = ty, job_payload = p, status = stat,
                 job_artifacts = None\<rparr>
      in (job, st\<lparr>jobs := (jobs st)(ident \<mapsto> job), uuid_count := uuid_count st + 1\<rparr>))"

text \<open>\<open>UPDATE jobs SET status = ?, artifacts = ? WHERE id = ?\<close>.\<close>

definition updateJobStatus :: "storage \<Rightarrow> string \<Rightarrow> string \<Rightarrow> artifacts option \<Rightarrow> storage" where
  "updateJobStatus st ident stat arts =
     (case jobs st ident of
        None \<Rightarrow> st
      | Some job \<Rightarrow> st\<lparr>jobs := (jobs st)(ident \<mapsto> job\<lparr>status := stat, job_artifacts := arts\<rparr>)\<rparr>)"

definition createCoverLetter ::
    "storage \<Rightarrow> string \<Rightarrow> string \<Rightarrow> string \<Rightarrow> string \<Rightarrow> string \<Rightarrow> CoverLetter \<times> storage" where
  "createCoverLetter st uid rid jid tn content =
     (let letter = \<lparr>cl_id = uuid_source st (uuid_count st), cl_userId = uid, cl_resumeId = rid,
                     cl_jdId = jid, cl_tone = tn, contentMd = content, version = 1\<rparr>
      in (letter, st\<lparr>coverLetters := coverLetters st @ [letter], uuid_count := uuid_count st + 1\<rparr>))"

subsection \<open>Effects\<close>

text \<open>
  What the processor does besides changing the store, in order: the calls of
  \<open>broadcastToChannel\<close> with their channel and payload, and the calls of
  \<open>updateJobStatus\<close> with the job and the status written.  A payload is a progress
  message (\<open>progress\<close>, \<open>current\<close>, status \<open>generating\<close>) or the completion
  message (\<open>progress\<close>, status \<open>completed\<close>, \<open>results\<close>).
\<close>

datatype batch_payload = Generating number string | Completed number "BatchResult list"

datatype effect = Broadcast string batch_payload | StatusUpdate string string

text \<open>
  The per-target operation \<open>generateCoverLetter\<close> gets the resume, the job
  description, the tone and the word count; it returns the letter or throws.
  Two calls with the same arguments need not agree, so it also depends on the
  index of the target.
\<close>

record GenRequest =
  req_resume :: ResumeJson
  req_jd :: JobDescription
  req_tone :: string
  req_wordCount :: nat

type_synonym generator = "nat \<Rightarrow> GenRequest \<Rightarrow> error + string"

subsection \<open>The endpoint and the processor\<close>

record loop_state =
  store :: storage
  results :: "BatchResult list"
  effects :: "effect list"

text \<open>
  One round of the loop for a job description that was found: the body of the
  inner \<open>try\<close> and its \<open>catch\<close>.  \<open>n\<close> is \<open>jds.length\<close>.
\<close>

definition process_target ::
    "generator \<Rightarrow> string \<Rightarrow> BatchPayload \<Rightarrow> Resume \<Rightarrow> nat \<Rightarrow> nat \<Rightarrow> JobDescription
       \<Rightarrow> loop_state \<Rightarrow> loop_state" where
  "process_target gen jobId p resume n i jd ls =
     (let ls1 = ls\<lparr>effects := effects ls @
                   [Broadcast (''batch:'' @ jobId)
                      (Generating (Math_round (js_mul (js_div (real i) (real n)) (Num 100)))
                         (jd_title jd))]\<rparr>
      in case gen i \<lparr>req_resume = resume_json resume, req_jd = jd, req_tone = tone p,
                      req_wordCount = wordCount p\<rparr> of
           Inl e \<Rightarrow>
             ls1\<lparr>results := results ls1 @
                   [\<lparr>res_jdId = jd_id jd, res_jdTitle = jd_title jd, res_coverId = None,
                     res_error = Some ''Generation failed'', success = False\<rparr>]\<rparr>
         | Inr content \<Rightarrow>
             (case createCoverLetter (store ls1) (userId p) (resumeId p) (jd_id jd) (tone p) content of
                (coverLetter, st') \<Rightarrow>
                  ls1\<lparr>store := st',
                      results := results ls1 @
                        [\<lparr>res_jdId = jd_id jd, res_jdTitle = jd_title jd,
                          res_coverId = Some (cl_id coverLetter), res_error = None,
                          success = True\<rparr>]\<rparr>))"

text \<open>
  The \<open>for\<close> loop over \<open>jds\<close>, from index \<open>i\<close>: an entry that is
  \<open>undefined\<close> is passed over by \<open>continue\<close>.  The pause after each round
  takes time only.
\<close>

fun batch_loop ::
    "generator \<Rightarrow> string \<Rightarrow> BatchPayload \<Rightarrow> Resume \<Rightarrow> nat \<Rightarrow> nat \<Rightarrow> JobDescription option list
       \<Rightarrow> loop_state \<Rightarrow> loop_state" where
  "batch_loop gen jobId p resume n i [] ls = ls"
| "batch_loop gen jobId p resume n i (None # jds) ls =
     batch_loop gen jobId p resume n (i + 1) jds ls"
| "batch_loop gen jobId p resume n i (Some jd # jds) ls =
     batch_loop gen jobId p resume n (i + 1) jds (process_target gen jobId p resume n i jd ls)"

text \<open>
  \<open>processBatchCoverLetters\<close>: the new store and the effects.  No step of the
  outer \<open>try\<close> throws when the store does not fail, so its \<open>catch\<close>, which
  writes the status \<open>error\<close>, has no case here.
\<close>

definition processBatchCoverLetters :: "generator \<Rightarrow> string \<Rightarrow> storage \<Rightarrow> storage \<times> effect list" where
  "processBatchCoverLetters gen jobId st =
     (case getJob st jobId of
        None \<Rightarrow> (st, [])
      | Some job \<Rightarrow>
          (let st1 = updateJobStatus st jobId ''running'' None;
               p = job_payload job;
               resume = resumes st1 (resumeId p);
               jds = map (jobDescriptions st1) (jdIds p)
           in case resume of
                None \<Rightarrow>
                  (updateJobStatus st1 jobId ''error'' (Some (Failure ''Resume not found'')),
                   [StatusUpdate jobId ''running'', StatusUpdate jobId ''error''])
              | Some r \<Rightarrow>
                  (let ls = batch_loop gen jobId p r (length jds) 0 jds
                              \<lparr>store = st1, results = [],
                               effects = [StatusUpdate jobId ''running'']\<rparr>
                   in (updateJobStatus (store ls) jobId ''completed'' (Some (Results (results ls))),
                       effects ls @
                         [Broadcast (''batch:'' @ jobId) (Completed (Num 100) (results ls)),
                          StatusUpdate jobId ''completed'']))))"

text \<open>
  The request of \<open>POST /api/covers/batch\<close>: \<open>jdIds\<close> is \<open>None\<close> when the
  body holds no array there; the tone, the word count and the user have
  defaults.
\<close>

record BatchRequest =
  body_resumeId :: string
  body_jdIds :: "string list option"
  body_tone :: "string option"
  body_wordCount :: "nat option"
  header_user_id :: "string option"

datatype response = JobAccepted string | BadRequest string

text \<open>
  The handler: the response, the new store, and the job it hands to
  \<open>processBatchCoverLetters\<close>, which runs after the handler.
\<close>

definition post_covers_batch :: "BatchRequest \<Rightarrow> storage \<Rightarrow> response \<times> storage \<times> string option" where
  "post_covers_batch req st =
     (case body_jdIds req of
        None \<Rightarrow> (BadRequest ''jdIds array is required'', st, None)
      | Some ids \<Rightarrow>
          if ids = [] then (BadRequest ''jdIds array is required'', st, None)
          else
            (case createJob st ''batch_cover_letters''
                    \<lparr>resumeId = body_resumeId req, jdIds = ids,
                     tone = (case body_tone req of None \<Rightarrow> ''professional'' | Some t \<Rightarrow> t),
                     wordCount = (case body_wordCount req of None \<Rightarrow> 250 | Some n \<Rightarrow> n),
                     userId = (case header_user_id req of
                                 None \<Rightarrow> ''anonymous''
                               | Some u \<Rightarrow> if u = [] then ''anonymous'' else u)\<rparr>
                    ''pending'' of
               (job, st') \<Rightarrow> (JobAccepted (job_id job), st', Some (job_id job))))"

text \<open>The job as \<open>GET /api/jobs/:id\<close> reads it.\<close>

definition job_status :: "storage \<Rightarrow> string \<Rightarrow> string option" where
  "job_status st ident = map_option status (getJob st ident)"

text \<open>The statuses written for a job, in order.\<close>

definition status_updates :: "string \<Rightarrow> effect list \<Rightarrow> string list" where
  "status_updates ident es =
     concat (map (\<lambda>e. case e of StatusUpdate j s \<Rightarrow> if j = ident then [s] else []
                             | Broadcast c d \<Rightarrow> []) es)"

text \<open>The broadcasts of progress messages, in order.\<close>

definition progress_events :: "effect list \<Rightarrow> (string \<times> number \<times> string) list" where
  "progress_events es =
     concat (map (\<lambda>e. case e of Broadcast c (Generating pr cur) \<Rightarrow> [(c, pr, cur)]
                             | _ \<Rightarrow> []) es)"

text \<open>
  The targets the loop works on, from index \<open>i\<close>: the job descriptions that
  were found, each with its index in \<open>jds\<close>.
\<close>

fun found_targets :: "nat \<Rightarrow> JobDescription option list \<Rightarrow> (nat \<times> JobDescription) list" where
  "found_targets i [] = []"
| "found_targets i (None # jds) = found_targets (i + 1) jds"
| "found_targets i (Some jd # jds) = (i, jd) # found_targets (i + 1) jds"

text \<open>Whether the per-target operation returns for a target.\<close>

definition target_succeeds :: "generator \<Rightarrow> BatchPayload \<Rightarrow> Resume \<Rightarrow> nat \<times> JobDescription \<Rightarrow> bool" where
  "target_succeeds gen p resume t =
     (case gen (fst t) \<lparr>req_resume = resume_json resume, req_jd = snd t, req_tone = tone p,
                        req_wordCount = wordCount p\<rparr> of
        Inl e \<Rightarrow> False
      | Inr content \<Rightarrow> True)"

text \<open>The progress message of a target.\<close>

definition progress_of :: "string \<Rightarrow> nat \<Rightarrow> nat \<times> JobDescription \<Rightarrow> effect" where
  "progress_of jobId n t =
     Broadcast (''batch:'' @ jobId)
       (Generating (Math_round (js_mul (js_div (real (fst t)) (real n)) (Num 100)))
          (jd_title (snd t)))"

section \<open>Concrete inputs\<close>

text \<open>The inputs at which the statements below are evaluated.\<close>

definition empty_resume :: ResumeJson where
  "empty_resume =
     \<lparr>personalInfo = \<lparr>name = [], email = [], phone = [], location = [], website = None,
                       linkedin = None, github = None\<rparr>,
      summary = [], experience = [], skills = [], education = None\<rparr>"

definition example_resume :: ResumeJson where
  "example_resume =
     \<lparr>personalInfo = \<lparr>name = ''Ann Lee'', email = ''ann@x.org'', phone = [], location = [],
                       website = None, linkedin = None, github = None\<rparr>,
      summary = ''Engineer with react and sql experience.'',
      experience =
        [\<lparr>title = ''Dev'', company = ''Acme'', exp_location = None, startDate = ''2020'',
          endDate = ''2021'',
          bullets = [''Grew revenue by 20% for the team'', ''Did things'']\<rparr>],
      skills = [(''lang'', [''python'', ''sql''])],
      education = None\<rparr>"

text \<open>
  A response that wraps the JSON text \<open>{"keywords":{"score":55}}\<close>, and a
  \<open>JSON.parse\<close> that knows this text and \<open>{}\<close>.
\<close>

definition quoted :: "string \<Rightarrow> string" where
  "quoted s = [CHR 0x22] @ s @ [CHR 0x22]"

definition example_json_text :: string where
  "example_json_text = ''{'' @ quoted ''keywords'' @ '':{'' @ quoted ''score'' @ '':55}}''"

definition example_response :: string where
  "example_response = ''Here is the analysis: '' @ example_json_text @ '' Done.''"

definition example_analysis :: json where
  "example_analysis = JObject [(''keywords'', JObject [(''score'', JNumber 55)])]"

definition example_parse :: "string \<Rightarrow> error + json" where
  "example_parse s =
     (if s = ''{}'' then Inr (JObject [])
      else if s = example_json_text then Inr example_analysis
      else Inl SyntaxError)"

definition example_world :: "error + string \<Rightarrow> world" where
  "example_world reply =
     \<lparr>GEMINI_API_KEY = Some ''AIza-example-key'', VITE_GEMINI_API_KEY = None,
      toDateString = ''Tue Nov 03 2026'',
      generateContent = (\<lambda>resumeText jdText. reply),
      JSON_parse = example_parse,
      conv_number = (\<lambda>v. NaN)\<rparr>"

definition fresh_state :: scorer_state where
  "fresh_state =
     \<lparr>quota_state = \<lparr>dailyRequestCount = 0, lastResetDate = ''Tue Nov 03 2026''\<rparr>,
      genAI = False\<rparr>"

text \<open>
  A store with one resume and three job descriptions, a request for the three,
  a request whose second target is not in the store, and a generator that
  fails for the second target.
\<close>

definition example_jd :: "string \<Rightarrow> string \<Rightarrow> JobDescription" where
  "example_jd ident t =
     \<lparr>jd_id = ident, jd_title = t, jd_company = None, rawText = ''We need react developers''\<rparr>"

definition example_store :: storage where
  "example_store =
     \<lparr>jobs = Map.empty,
      resumes = [''r1'' \<mapsto> \<lparr>resume_id = ''r1'', resume_json = example_resume\<rparr>],
      jobDescriptions =
        [''a'' \<mapsto> example_jd ''a'' ''Frontend'', ''b'' \<mapsto> example_jd ''b'' ''Backend'',
         ''c'' \<mapsto> example_jd ''c'' ''Data''],
      coverLetters = [],
      uuid_source = (\<lambda>n. ''uuid-'' @ show_nat n),
      uuid_count = 0\<rparr>"

definition example_request :: "string list \<Rightarrow> BatchRequest" where
  "example_request ids =
     \<lparr>body_resumeId = ''r1'', body_jdIds = Some ids, body_tone = None, body_wordCount = None,
      header_user_id = None\<rparr>"

definition fails_second :: generator where
  "fails_second i req =
     (if i = 1 then Inl (ServiceError ''unavailable'') else Inr ''Dear Hiring Manager'')"

text \<open>The store after the request for the targets \<open>ids\<close> on the example store.\<close>

definition enqueued_store :: "string list \<Rightarrow> storage" where
  "enqueued_store ids = fst (snd (post_covers_batch (example_request ids) example_store))"

text \<open>The \<open>success\<close> flags of the results a job holds.\<close>

definition result_flags :: "storage \<Rightarrow> string \<Rightarrow> bool list option" where
  "result_flags st ident =
     (case getJob st ident of
        None \<Rightarrow> None
      | Some job \<Rightarrow>
          (case job_artifacts job of
             Some (Results rs) \<Rightarrow> Some (map success rs)
           | _ \<Rightarrow> None))"


section \<open>Arithmetic of the scores\<close>

lemma round_half_up_0 [simp]: "round_half_up 0 = 0"
  by (simp add: round_half_up_def)

lemma round_half_up_bounds:
  assumes "0 \<le> x" and "x \<le> of_int c"
  shows "0 \<le> round_half_up x" and "round_half_up x \<le> c"
proof -
  show "0 \<le> round_half_up x"
    using assms(1) by (simp add: round_half_up_def)
  have "x + 1 / 2 < of_int (c + 1)"
    using assms(2) by simp
  then show "round_half_up x \<le> c"
    unfolding round_half_up_def by (simp add: floor_le_iff)
qed

lemma ratio_bounds:
  assumes "m \<le> t" and "0 < t" and "0 \<le> c"
  shows "0 \<le> real m / real t * c" and "real m / real t * c \<le> c"
proof -
  have "real m / real t \<le> 1" using assms(1,2) by simp
  then show "real m / real t * c \<le> c"
    using assms(3) mult_right_mono [of "real m / real t" 1 c] by simp
  show "0 \<le> real m / real t * c" using assms(3) by simp
qed

lemma js_add_NaN_right [simp]: "js_add x NaN = NaN"
  by (cases x) simp_all

lemma lower_char_plus_32:
  "is_upper c \<Longrightarrow> of_char (lower_char c) = (of_char c + 32 :: nat)"
  by (cases c) (auto simp: lower_char_def is_upper_def of_bool_def split: if_splits)

section \<open>Properties of the quota gate\<close>

lemma incrementQuotaCount_funpow:
  "(incrementQuotaCount ^^ n) q = q\<lparr>dailyRequestCount := dailyRequestCount q + n\<rparr>"
  by (induction n) (simp_all add: incrementQuotaCount_def)

text \<open>
  C4.  The limit is 45.  On the day the window started, \<open>checkQuotaLimit\<close>
  after \<open>n\<close> calls of \<open>incrementQuotaCount\<close> returns whether the count, which
  has grown by \<open>n\<close>, is below 45, and leaves the state alone: after 45 calls it
  returns false.  On a day whose date string differs from the stored one,
  \<open>checkQuotaLimit\<close> first resets the count to 0 and stores the new date, and
  returns true.
\<close>

theorem quota_gate_limit_and_rollover:
  "MAX_DAILY_REQUESTS = 45 \<and>
   (lastResetDate q = today \<longrightarrow>
      fst (checkQuotaLimit today ((incrementQuotaCount ^^ n) q)) = (dailyRequestCount q + n < 45) \<and>
      snd (checkQuotaLimit today ((incrementQuotaCount ^^ n) q)) = (incrementQuotaCount ^^ n) q \<and>
      fst (checkQuotaLimit today ((incrementQuotaCount ^^ 45) q)) = False) \<and>
   (lastResetDate q \<noteq> today \<longrightarrow>
      checkQuotaLimit today q = (True, q\<lparr>dailyRequestCount := 0, lastResetDate := today\<rparr>))"
proof -
  have limit: "MAX_DAILY_REQUESTS = 45"
    by (simp add: MAX_DAILY_REQUESTS_def)
  have same_day: "lastResetDate q = today \<longrightarrow>
      fst (checkQuotaLimit today ((incrementQuotaCount ^^ m) q)) = (dailyRequestCount q + m < 45) \<and>
      snd (checkQuotaLimit today ((incrementQuotaCount ^^ m) q)) = (incrementQuotaCount ^^ m) q"
    for m
    by (simp add: checkQuotaLimit_def incrementQuotaCount_funpow limit)
  have new_day: "lastResetDate q \<noteq> today \<longrightarrow>
      checkQuotaLimit today q = (True, q\<lparr>dailyRequestCount := 0, lastResetDate := today\<rparr>)"
    by (simp add: checkQuotaLimit_def limit)
  show ?thesis
    using limit same_day [of n] same_day [of 45] new_day by simp
qed

theorem quota_gate_limit_and_rollover_witness:
  "fst (checkQuotaLimit ''Tue Nov 03 2026''
          ((incrementQuotaCount ^^ 45) \<lparr>dailyRequestCount = 0, lastResetDate = ''Tue Nov 03 2026''\<rparr>)) = False \<and>
   checkQuotaLimit ''Wed Nov 04 2026''
          ((incrementQuotaCount ^^ 45) \<lparr>dailyRequestCount = 0, lastResetDate = ''Tue Nov 03 2026''\<rparr>)
     = (True, \<lparr>dailyRequestCount = 0, lastResetDate = ''Wed Nov 04 2026''\<rparr>)"
proof -
  let ?q = "\<lparr>dailyRequestCount = 0, lastResetDate = ''Tue Nov 03 2026''\<rparr>"
  have same: "lastResetDate ((incrementQuotaCount ^^ 45) ?q) = ''Tue Nov 03 2026''"
    by (simp add: incrementQuotaCount_funpow)
  have a: "fst (checkQuotaLimit ''Tue Nov 03 2026'' ((incrementQuotaCount ^^ 45) ?q)) = False"
    using quota_gate_limit_and_rollover [of ?q "''Tue Nov 03 2026''" 45, THEN conjunct2, THEN conjunct1]
    by simp
  have b: "checkQuotaLimit ''Wed Nov 04 2026'' ((incrementQuotaCount ^^ 45) ?q)
             = (True, ((incrementQuotaCount ^^ 45) ?q)
                  \<lparr>dailyRequestCount := 0, lastResetDate := ''Wed Nov 04 2026''\<rparr>)"
    using quota_gate_limit_and_rollover
      [of "(incrementQuotaCount ^^ 45) ?q" "''Wed Nov 04 2026''" 0, THEN conjunct2, THEN conjunct2]
      same
    by simp
  show ?thesis
    using a b by (simp add: incrementQuotaCount_funpow)
qed

section \<open>Properties of the keyword score\<close>

lemma keywords_of_sql: "extractKeywords (Some ''sql'') = [''sql'']"
  by (simp add: extractKeywords_def toLowerCase_def lower_char_def is_upper_def
      strip_punctuation_def is_word_def is_lower_def is_digit_def is_space_def split_on_def
      set_add_def phrases_def Let_def)

lemma keywords_of_example_target:
  "extractKeywords (Some ''We need SQL, React & docker'') = [''need'', ''sql'', ''react'', ''docker'']"
  by (simp add: extractKeywords_def toLowerCase_def lower_char_def is_upper_def
      strip_punctuation_def is_word_def is_lower_def is_digit_def is_space_def split_on_def
      set_add_def phrases_def Let_def)

lemma keywords_of_example_candidate:
  "extractKeywords (Some ''I know react and docker'') = [''know'', ''react'', ''and'', ''docker'']"
  by (simp add: extractKeywords_def toLowerCase_def lower_char_def is_upper_def
      strip_punctuation_def is_word_def is_lower_def is_digit_def is_space_def split_on_def
      set_add_def phrases_def Let_def)

lemma keyword_score_bounds:
  "\<exists>k. kw_score (calculateKeywordScore resumeText jdText) = Num (of_int k) \<and> 0 \<le> k \<and> k \<le> 40"
proof (cases "importantKeywords (extractKeywords jdText) = []")
  case True
  then show ?thesis
    by (simp add: calculateKeywordScore_def Let_def)
next
  case False
  let ?imp = "importantKeywords (extractKeywords jdText)"
  let ?m = "length (filter (\<lambda>k. k \<in> set (extractKeywords resumeText)) ?imp)"
  have pos: "0 < length ?imp" using False by simp
  have le: "?m \<le> length ?imp" by simp
  have sc: "kw_score (calculateKeywordScore resumeText jdText)
              = Num (of_int (round_half_up (real ?m / real (length ?imp) * 40)))"
    using pos by (simp add: calculateKeywordScore_def Let_def js_div_def)
  have "0 \<le> round_half_up (real ?m / real (length ?imp) * 40)"
    and "round_half_up (real ?m / real (length ?imp) * 40) \<le> 40"
    using round_half_up_bounds [of "real ?m / real (length ?imp) * 40" 40]
      ratio_bounds [OF le pos, of 40] by simp_all
  with sc show ?thesis by blast
qed

text \<open>
  C6, as the claim states it, fails: the target \<open>sql\<close> has no word longer than 3
  and no phrase, so the keyword set the claim describes is empty and its score is
  0; the code counts \<open>sql\<close>, a word of the common keyword list, and scores 40
  against a candidate that has it.
\<close>

theorem keyword_score_counterexample:
  "kw_score (calculateKeywordScore (Some ''sql'') (Some ''sql'')) = Num 40 \<and>
   kw_total (calculateKeywordScore (Some ''sql'') (Some ''sql'')) = 1 \<and>
   spec_keyword_score (Some ''sql'') (Some ''sql'') = 0 \<and>
   kw_score (calculateKeywordScore (Some ''sql'') (Some ''sql''))
     \<noteq> Num (of_int (spec_keyword_score (Some ''sql'') (Some ''sql'')))"
  by (simp add: calculateKeywordScore_def spec_keyword_score_def spec_keywords_def
      keywords_of_sql importantKeywords_def COMMON_KEYWORDS_def js_div_def round_half_up_def
      Let_def)

text \<open>
  C6, amended.  The important keywords of the target are the extracted keywords
  (words longer than 2, and the phrases found) that are longer than 3 or belong to
  the common keyword list.  The score is 0 when there is none, and otherwise
  \<open>round(40 * matched / total)\<close>, where \<open>matched\<close> counts the important
  keywords among the keywords of the candidate; the missing list is the first 10
  unmatched ones.  The score is a number within 0 and 40.
\<close>

theorem keyword_score_formula:
  "kw_total (calculateKeywordScore resumeText jdText)
     = length (importantKeywords (extractKeywords jdText)) \<and>
   kw_matched (calculateKeywordScore resumeText jdText)
     = length (filter (\<lambda>k. k \<in> set (extractKeywords resumeText))
                 (importantKeywords (extractKeywords jdText))) \<and>
   (kw_total (calculateKeywordScore resumeText jdText) = 0 \<longrightarrow>
      kw_score (calculateKeywordScore resumeText jdText) = Num 0) \<and>
   (0 < kw_total (calculateKeywordScore resumeText jdText) \<longrightarrow>
      kw_score (calculateKeywordScore resumeText jdText)
        = Num (of_int (round_half_up
            (40 * real (kw_matched (calculateKeywordScore resumeText jdText))
                / real (kw_total (calculateKeywordScore resumeText jdText)))))) \<and>
   kw_missing (calculateKeywordScore resumeText jdText)
     = take 10 (filter (\<lambda>k. k \<notin> set (extractKeywords resumeText))
                  (importantKeywords (extractKeywords jdText))) \<and>
   length (kw_missing (calculateKeywordScore resumeText jdText)) \<le> 10 \<and>
   set (importantKeywords (extractKeywords jdText))
     = {k \<in> set (extractKeywords jdText). 3 < length k \<or> k \<in> set COMMON_KEYWORDS} \<and>
   kw_matched (calculateKeywordScore resumeText jdText)
     \<le> kw_total (calculateKeywordScore resumeText jdText) \<and>
   in_range 0 40 (kw_score (calculateKeywordScore resumeText jdText))"
proof -
  obtain k where k: "kw_score (calculateKeywordScore resumeText jdText) = Num (of_int k)"
    "0 \<le> k" "k \<le> 40"
    using keyword_score_bounds by blast
  have range: "in_range 0 40 (kw_score (calculateKeywordScore resumeText jdText))"
    using k by simp
  have counts: "kw_matched (calculateKeywordScore resumeText jdText)
                  \<le> kw_total (calculateKeywordScore resumeText jdText)"
    by (simp add: calculateKeywordScore_def Let_def)
  have formula:
    "kw_total (calculateKeywordScore resumeText jdText)
       = length (importantKeywords (extractKeywords jdText))"
    "kw_matched (calculateKeywordScore resumeText jdText)
       = length (filter (\<lambda>k. k \<in> set (extractKeywords resumeText))
                   (importantKeywords (extractKeywords jdText)))"
    "kw_total (calculateKeywordScore resumeText jdText) = 0 \<longrightarrow>
       kw_score (calculateKeywordScore resumeText jdText) = Num 0"
    "0 < kw_total (calculateKeywordScore resumeText jdText) \<longrightarrow>
       kw_score (calculateKeywordScore resumeText jdText)
         = Num (of_int (round_half_up
             (40 * real (kw_matched (calculateKeywordScore resumeText jdText))
                 / real (kw_total (calculateKeywordScore resumeText jdText)))))"
    by (simp_all add: calculateKeywordScore_def Let_def js_div_def mult.commute)
  have missing:
    "kw_missing (calculateKeywordScore resumeText jdText)
       = take 10 (filter (\<lambda>k. k \<notin> set (extractKeywords resumeText))
                    (importantKeywords (extractKeywords jdText)))"
    "length (kw_missing (calculateKeywordScore resumeText jdText)) \<le> 10"
    by (simp_all add: calculateKeywordScore_def Let_def)
  have important:
    "set (importantKeywords (extractKeywords jdText))
       = {k \<in> set (extractKeywords jdText). 3 < length k \<or> k \<in> set COMMON_KEYWORDS}"
    by (simp add: importantKeywords_def)
  show ?thesis
    using formula missing important counts range by blast
qed

theorem keyword_score_formula_witness:
  "calculateKeywordScore (Some ''I know react and docker'') (Some ''We need SQL, React & docker'')
     = \<lparr>kw_score = Num 20, kw_matched = 2, kw_total = 4, kw_missing = [''need'', ''sql'']\<rparr> \<and>
   kw_score (calculateKeywordScore (Some ''I know react and docker'') None) = Num 0"
proof -
  let ?r = "calculateKeywordScore (Some ''I know react and docker'')
              (Some ''We need SQL, React & docker'')"
  note t = keyword_score_formula [of "Some ''I know react and docker''"
      "Some ''We need SQL, React & docker''"]
  have imp: "importantKeywords (extractKeywords (Some ''We need SQL, React & docker''))
               = [''need'', ''sql'', ''react'', ''docker'']"
    by (simp add: keywords_of_example_target importantKeywords_def COMMON_KEYWORDS_def)
  have total: "kw_total ?r = 4"
    using t imp by simp
  have matched: "kw_matched ?r = 2"
    using t imp by (simp add: keywords_of_example_candidate)
  have "kw_score ?r = Num (of_int (round_half_up (40 * real (kw_matched ?r) / real (kw_total ?r))))"
    using t total by simp
  then have score: "kw_score ?r = Num 20"
    by (simp add: total matched round_half_up_def)
  have missing: "kw_missing ?r = [''need'', ''sql'']"
    using t imp by (simp add: keywords_of_example_candidate)
  have none: "kw_total (calculateKeywordScore (Some ''I know react and docker'') None) = 0"
    using keyword_score_formula [of "Some ''I know react and docker''" None]
    by (simp add: extractKeywords_def importantKeywords_def)
  have zero: "kw_score (calculateKeywordScore (Some ''I know react and docker'') None) = Num 0"
    using keyword_score_formula [of "Some ''I know react and docker''" None] none by simp
  have "?r = \<lparr>kw_score = Num 20, kw_matched = 2, kw_total = 4, kw_missing = [''need'', ''sql'']\<rparr>"
    using score matched total missing by (cases ?r) simp
  then show ?thesis using zero by simp
qed

section \<open>Properties of the quantification score\<close>

lemma foldl_count_bullet:
  "foldl count_bullet (tb, qb) bs = (tb + length bs, qb + length (filter is_quantified bs))"
  by (induction bs arbitrary: tb qb) (simp_all add: count_bullet_def)

lemma foldl_count_experience:
  "foldl (\<lambda>acc exp. foldl count_bullet acc (bullets exp)) (tb, qb) es =
     (tb + length (concat (map bullets es)),
      qb + length (filter is_quantified (concat (map bullets es))))"
  by (induction es arbitrary: tb qb) (simp_all add: foldl_count_bullet)

lemma count_bullets_eq:
  "count_bullets resume =
     (length (all_bullets resume), length (filter is_quantified (all_bullets resume)))"
  by (simp add: count_bullets_def all_bullets_def foldl_count_experience)

text \<open>
  The metric pattern matches somewhere in a bullet exactly when the bullet holds a
  digit: its first alternative matches at every digit, and each alternative needs
  one.
\<close>

lemma m_many_nonempty: "m_many P s \<noteq> []"
  by (induction s) simp_all

lemma metric_pattern_digit_head:
  assumes "is_digit c"
  shows "metric_pattern (c # cs) \<noteq> []"
proof -
  obtain r rs where "m_many is_digit cs = r # rs"
    using m_many_nonempty [of is_digit cs] by (cases "m_many is_digit cs") auto
  then show ?thesis
    using assms by (simp add: metric_pattern_def m_alt_def m_seq_def m_many1_def m_opt_def)
qed

lemma metric_pattern_no_digit:
  "\<forall>c \<in> set s. \<not> is_digit c \<Longrightarrow> metric_pattern s = []"
  by (cases s; cases "tl s")
     (auto simp: metric_pattern_def m_alt_def m_seq_def m_many1_def m_char_def)

lemma is_quantified_iff_digit:
  "is_quantified s \<longleftrightarrow> (\<exists>c \<in> set s. is_digit c)"
  unfolding is_quantified_def
proof (induction s)
  case Nil
  show ?case
    using metric_pattern_no_digit [of "[]"] by simp
next
  case (Cons c cs)
  show ?case
  proof (cases "is_digit c")
    case True
    then show ?thesis using metric_pattern_digit_head by simp
  next
    case False
    show ?thesis
    proof (cases "\<exists>d \<in> set cs. is_digit d")
      case True
      then show ?thesis using Cons by simp
    next
      case nd: False
      then have "metric_pattern (c # cs) = []"
        using False metric_pattern_no_digit [of "c # cs"] by simp
      then show ?thesis using Cons nd False by simp
    qed
  qed
qed

lemma quantification_score_bounds:
  "\<exists>k. q_score (calculateQuantificationScore resume) = Num (of_int k) \<and> 0 \<le> k \<and> k \<le> 15"
proof (cases "all_bullets resume = []")
  case True
  then show ?thesis
    by (simp add: calculateQuantificationScore_def count_bullets_eq Let_def)
next
  case False
  let ?bs = "all_bullets resume"
  let ?q = "length (filter is_quantified ?bs)"
  have pos: "0 < length ?bs" using False by simp
  have le: "?q \<le> length ?bs" by simp
  have sc: "q_score (calculateQuantificationScore resume)
              = Num (of_int (round_half_up (real ?q / real (length ?bs) * 15)))"
    using pos by (simp add: calculateQuantificationScore_def count_bullets_eq Let_def js_div_def)
  have "0 \<le> round_half_up (real ?q / real (length ?bs) * 15)"
    and "round_half_up (real ?q / real (length ?bs) * 15) \<le> 15"
    using round_half_up_bounds [of "real ?q / real (length ?bs) * 15" 15]
      ratio_bounds [OF le pos, of 15] by simp_all
  with sc show ?thesis by blast
qed

text \<open>
  C7.  The counters of \<open>calculateQuantificationScore\<close> are the number of all
  experience bullets and the number of those that match the metric pattern.  With
  no bullet the score is 0 and nothing is divided; otherwise the score is
  \<open>round(15 * quantified / total)\<close>.  The score is a number within 0 and 15.
\<close>

theorem quantification_score:
  "totalBullets (calculateQuantificationScore resume) = length (all_bullets resume) \<and>
   quantifiedBullets (calculateQuantificationScore resume)
     = length (filter (\<lambda>bullet. regex_test metric_pattern bullet) (all_bullets resume)) \<and>
   (all_bullets resume = [] \<longrightarrow> q_score (calculateQuantificationScore resume) = Num 0) \<and>
   (all_bullets resume \<noteq> [] \<longrightarrow>
      q_score (calculateQuantificationScore resume)
        = Num (of_int (round_half_up
            (15 * real (quantifiedBullets (calculateQuantificationScore resume))
                / real (totalBullets (calculateQuantificationScore resume)))))) \<and>
   in_range 0 15 (q_score (calculateQuantificationScore resume))"
proof -
  have "is_quantified = (\<lambda>bullet. regex_test metric_pattern bullet)"
    by (rule ext) (simp add: is_quantified_def)
  then have formula:
    "totalBullets (calculateQuantificationScore resume) = length (all_bullets resume)"
    "quantifiedBullets (calculateQuantificationScore resume)
       = length (filter (\<lambda>bullet. regex_test metric_pattern bullet) (all_bullets resume))"
    "all_bullets resume = [] \<longrightarrow> q_score (calculateQuantificationScore resume) = Num 0"
    "all_bullets resume \<noteq> [] \<longrightarrow>
       q_score (calculateQuantificationScore resume)
         = Num (of_int (round_half_up
             (15 * real (quantifiedBullets (calculateQuantificationScore resume))
                 / real (totalBullets (calculateQuantificationScore resume)))))"
    by (simp_all add: calculateQuantificationScore_def count_bullets_eq js_div_def Let_def
        mult.commute)
  obtain k where "q_score (calculateQuantificationScore resume) = Num (of_int k)"
    "0 \<le> k" "k \<le> 15"
    using quantification_score_bounds by blast
  then have "in_range 0 15 (q_score (calculateQuantificationScore resume))"
    by simp
  with formula show ?thesis by blast
qed

theorem quantification_score_witness:
  "q_score (calculateQuantificationScore empty_resume) = Num 0 \<and>
   calculateQuantificationScore example_resume
     = \<lparr>q_score = Num 8, q_total = 15, quantifiedBullets = 1, totalBullets = 2\<rparr>"
proof -
  have none: "all_bullets empty_resume = []"
    by (simp add: all_bullets_def empty_resume_def)
  have zero: "q_score (calculateQuantificationScore empty_resume) = Num 0"
    using quantification_score [of empty_resume] none by (simp del: regex_test.simps)
  have two: "all_bullets example_resume = [''Grew revenue by 20% for the team'', ''Did things'']"
    by (simp add: all_bullets_def example_resume_def)
  have q1: "regex_test metric_pattern ''Grew revenue by 20% for the team''"
    by code_simp
  have q2: "\<not> regex_test metric_pattern ''Did things''"
    by code_simp
  note t = quantification_score [of example_resume]
  have tb: "totalBullets (calculateQuantificationScore example_resume) = 2"
    using t two by (simp del: regex_test.simps)
  have qb: "quantifiedBullets (calculateQuantificationScore example_resume) = 1"
    using t two q1 q2 by (simp del: regex_test.simps)
  have "q_score (calculateQuantificationScore example_resume)
          = Num (of_int (round_half_up
              (15 * real (quantifiedBullets (calculateQuantificationScore example_resume))
                  / real (totalBullets (calculateQuantificationScore example_resume)))))"
    using t two by (simp del: regex_test.simps)
  then have sc: "q_score (calculateQuantificationScore example_resume) = Num 8"
    by (simp add: tb qb round_half_up_def)
  have qt: "q_total (calculateQuantificationScore example_resume) = 15"
    by (simp add: calculateQuantificationScore_def Let_def split: prod.splits)
  have "calculateQuantificationScore example_resume
          = \<lparr>q_score = Num 8, q_total = 15, quantifiedBullets = 1, totalBullets = 2\<rparr>"
    using sc qt qb tb by (cases "calculateQuantificationScore example_resume") simp
  then show ?thesis using zero by simp
qed

section \<open>Properties of the readability score\<close>







section \<open>The breakdown of the deterministic scorer\<close>

lemma foldl_bullet_penalty_le: "foldl bullet_penalty sc bs \<le> sc"
proof (induction bs arbitrary: sc)
  case Nil
  show ?case by simp
next
  case (Cons b bs)
  have "foldl bullet_penalty (bullet_penalty sc b) bs \<le> bullet_penalty sc b"
    by (rule Cons.IH)
  also have "bullet_penalty sc b \<le> sc"
    by (simp add: bullet_penalty_def)
  finally show ?case by simp
qed

lemma foldl_experience_penalty_le:
  "foldl (\<lambda>sc exp. foldl bullet_penalty sc (bullets exp)) sc es \<le> sc"
proof (induction es arbitrary: sc)
  case Nil
  show ?case by simp
next
  case (Cons e es)
  have "foldl (\<lambda>sc exp. foldl bullet_penalty sc (bullets exp))
          (foldl bullet_penalty sc (bullets e)) es \<le> foldl bullet_penalty sc (bullets e)"
    by (rule Cons.IH)
  also have "\<dots> \<le> sc" by (rule foldl_bullet_penalty_le)
  finally show ?case by simp
qed

lemma max_round_bounds:
  assumes "x \<le> 10"
  shows "\<exists>k. Math_max (Num 0) (Math_round (Num x)) = Num (of_int k) \<and> 0 \<le> k \<and> k \<le> 10"
proof -
  have up: "round_half_up x \<le> 10"
    using assms unfolding round_half_up_def by (simp add: floor_le_iff)
  have "Math_max (Num 0) (Math_round (Num x)) = Num (of_int (max 0 (round_half_up x)))"
    by (simp add: Math_max_def max_def)
  moreover have "0 \<le> max 0 (round_half_up x)" and "max 0 (round_half_up x) \<le> 10"
    using up by simp_all
  ultimately show ?thesis by blast
qed

lemma formatting_score_bounds:
  "\<exists>k. fmt_score (calculateFormattingScore resume) = Num (of_int k) \<and> 0 \<le> k \<and> k \<le> 10"
proof -
  define s3 :: real where
    "s3 = (let s0 = 10;
               s1 = (if name (personalInfo resume) = [] \<or> email (personalInfo resume) = []
                     then s0 - 2 else s0);
               s2 = (if summary resume = [] \<or> length (summary resume) < 50 then s1 - 1 else s1)
           in if length (experience resume) = 0 then s2 - 3 else s2)"
  have s3: "s3 \<le> 10" by (simp add: s3_def Let_def)
  have "foldl (\<lambda>sc exp. foldl bullet_penalty sc (bullets exp)) s3 (experience resume) \<le> 10"
    using foldl_experience_penalty_le [of s3 "experience resume"] s3 by linarith
  from max_round_bounds [OF this] show ?thesis
    by (simp add: calculateFormattingScore_def s3_def Let_def)
qed

lemma readability_score_bounds:
  "\<exists>k. rd_score (calculateReadabilityScore text) = Num (of_int k) \<and> 0 \<le> k \<and> k \<le> 10"
proof -
  have "\<exists>k \<in> {10, 7, 5, 4 :: int}. rd_score (calculateReadabilityScore text) = Num (of_int k)"
    by (simp add: calculateReadabilityScore_def Let_def)
  then show ?thesis by auto
qed

lemma relevancy_bounds:
  assumes "0 \<le> k" and "k \<le> 40"
  shows "\<exists>l. Math_min (Num 25) (Math_round (js_add (js_mul (Num (of_int k)) (Num 0.6)) (Num 10)))
               = Num (of_int l) \<and> 0 \<le> l \<and> l \<le> 25"
proof -
  let ?r = "round_half_up (of_int k * 0.6 + 10)"
  have nonneg: "0 \<le> ?r"
    using assms(1) by (simp add: round_half_up_def)
  have "Math_min (Num 25) (Math_round (js_add (js_mul (Num (of_int k)) (Num 0.6)) (Num 10)))
          = Num (of_int (min 25 ?r))"
    by (simp add: Math_min_def min_def)
  moreover have "0 \<le> min 25 ?r" and "min 25 ?r \<le> 25"
    using nonneg by simp_all
  ultimately show ?thesis by blast
qed

lemma computeATSScore_fields:
  "keywordData (breakdown (computeATSScore resume jdText))
     = calculateKeywordScore
         (Some (join_str '' '' (filter (\<lambda>s. s \<noteq> []) (resume_parts resume)))) (Some jdText)"
  "rel_score (relevancy (breakdown (computeATSScore resume jdText)))
     = Math_min (Num 25)
         (Math_round (js_add (js_mul
            (kw_score (keywordData (breakdown (computeATSScore resume jdText))))
            (Num 0.6)) (Num 10)))"
  "rel_total (relevancy (breakdown (computeATSScore resume jdText))) = 25"
  "quantification (breakdown (computeATSScore resume jdText)) = calculateQuantificationScore resume"
  "formatting (breakdown (computeATSScore resume jdText)) = calculateFormattingScore resume"
  "readability (breakdown (computeATSScore resume jdText))
     = calculateReadabilityScore
         (join_str '' '' (filter (\<lambda>s. s \<noteq> []) (resume_parts resume)) @ '' '' @ jdText)"
  "overall (computeATSScore resume jdText) = sum_of_scores (breakdown (computeATSScore resume jdText))"
  by (simp_all add: computeATSScore_def Let_def)

text \<open>
  The results of \<open>computeATSScore\<close>: the five scores are whole numbers within
  0 to 40, 25, 15, 10 and 10, the stored totals of the last four are 25, 15, 10
  and 10, and the overall score is the sum of the five.
\<close>

theorem computeATSScore_invariant:
  "\<exists>k r q f d :: int.
     kw_score (keywordData (breakdown (computeATSScore resume jdText))) = Num (of_int k) \<and>
     rel_score (relevancy (breakdown (computeATSScore resume jdText))) = Num (of_int r) \<and>
     q_score (quantification (breakdown (computeATSScore resume jdText))) = Num (of_int q) \<and>
     fmt_score (formatting (breakdown (computeATSScore resume jdText))) = Num (of_int f) \<and>
     rd_score (readability (breakdown (computeATSScore resume jdText))) = Num (of_int d) \<and>
     0 \<le> k \<and> k \<le> 40 \<and> 0 \<le> r \<and> r \<le> 25 \<and> 0 \<le> q \<and> q \<le> 15 \<and>
     0 \<le> f \<and> f \<le> 10 \<and> 0 \<le> d \<and> d \<le> 10 \<and>
     rel_total (relevancy (breakdown (computeATSScore resume jdText))) = 25 \<and>
     q_total (quantification (breakdown (computeATSScore resume jdText))) = 15 \<and>
     fmt_total (formatting (breakdown (computeATSScore resume jdText))) = 10 \<and>
     rd_total (readability (breakdown (computeATSScore resume jdText))) = 10 \<and>
     overall (computeATSScore resume jdText) = Num (of_int (k + r + q + f + d))"
proof -
  let ?b = "breakdown (computeATSScore resume jdText)"
  obtain k where k: "kw_score (keywordData ?b) = Num (of_int k)" "0 \<le> k" "k \<le> 40"
    unfolding computeATSScore_fields using keyword_score_bounds by blast
  obtain r where r: "rel_score (relevancy ?b) = Num (of_int r)" "0 \<le> r" "r \<le> 25"
    unfolding computeATSScore_fields(2) k(1) using relevancy_bounds [OF k(2,3)] by blast
  obtain q where q: "q_score (quantification ?b) = Num (of_int q)" "0 \<le> q" "q \<le> 15"
    unfolding computeATSScore_fields using quantification_score_bounds by blast
  obtain f where f: "fmt_score (formatting ?b) = Num (of_int f)" "0 \<le> f" "f \<le> 10"
    unfolding computeATSScore_fields using formatting_score_bounds by blast
  obtain d where d: "rd_score (readability ?b) = Num (of_int d)" "0 \<le> d" "d \<le> 10"
    unfolding computeATSScore_fields using readability_score_bounds by blast
  have ov: "overall (computeATSScore resume jdText) = Num (of_int (k + r + q + f + d))"
    unfolding computeATSScore_fields(7) sum_of_scores_def k(1) r(1) q(1) f(1) d(1) by simp
  have totals:
    "rel_total (relevancy ?b) = 25" "q_total (quantification ?b) = 15"
    "fmt_total (formatting ?b) = 10" "rd_total (readability ?b) = 10"
    by (simp_all add: computeATSScore_fields calculateQuantificationScore_def
        calculateFormattingScore_def calculateReadabilityScore_def Let_def split: prod.splits)
  show ?thesis
    using k r q f d ov totals by blast
qed

text \<open>Without both embeddings the result of \<open>computeATSScore\<close> is returned as it is.\<close>

lemma computeATSScoreWithEmbeddings_absent:
  "computeATSScoreWithEmbeddings resume jdText None je = computeATSScore resume jdText"
  "computeATSScoreWithEmbeddings resume jdText re None = computeATSScore resume jdText"
  by (simp_all add: computeATSScoreWithEmbeddings_def Let_def split: option.splits)

lemma cosine_opposite: "calculateCosineSimilarity [1] [- 1] = Num (- 1)"
  by (simp add: calculateCosineSimilarity_def cosine_step_def js_div_def)

lemma cosine_zero: "calculateCosineSimilarity [0] [0] = NaN"
  by (simp add: calculateCosineSimilarity_def cosine_step_def js_div_def inf_of_sign_def)

text \<open>
  C1 at the embeddings \<open>[1]\<close> and \<open>[-1]\<close>, and at \<open>[0]\<close> and \<open>[0]\<close>, for
  every resume and target text: \<open>computeATSScoreWithEmbeddings\<close> stores the
  relevancy score \<open>-25\<close>, which is not within 0 and 25, and for the zero vectors
  the relevancy score and the overall score are \<open>NaN\<close>.  The rounded multiple
  of the cosine is stored without the bounds that \<open>computeATSScore\<close> puts on its
  own relevancy score.
\<close>

theorem embeddings_relevancy_out_of_range:
  "rel_score (relevancy (breakdown
      (computeATSScoreWithEmbeddings resume jdText (Some [1]) (Some [- 1])))) = Num (- 25) \<and>
   \<not> in_range 0 25 (rel_score (relevancy (breakdown
      (computeATSScoreWithEmbeddings resume jdText (Some [1]) (Some [- 1]))))) \<and>
   rel_score (relevancy (breakdown
      (computeATSScoreWithEmbeddings resume jdText (Some [0]) (Some [0])))) = NaN \<and>
   overall (computeATSScoreWithEmbeddings resume jdText (Some [0]) (Some [0])) = NaN"
  by (simp add: computeATSScoreWithEmbeddings_def Let_def cosine_opposite cosine_zero
      round_half_up_def sum_of_scores_def)

section \<open>Properties of the assisted scorer\<close>

lemma clamp_in_range:
  assumes "x \<noteq> NaN" and "0 \<le> hi"
  shows "in_range 0 hi (Math_min (Num hi) (Math_max (Num 0) x))"
  using assms by (cases x) (auto simp: Math_min_def Math_max_def)

lemma ToNumber_numeric:
  "numeric_or_absent v \<Longrightarrow> ToNumber conv (or_default v d) \<noteq> NaN"
  by (auto simp: numeric_or_absent_def ToNumber_def or_default_def falsy_def
      split: option.splits json.splits)

lemma clamp_score_in_range:
  assumes "numeric_or_absent v" and "0 \<le> hi"
  shows "in_range 0 hi (clamp_score w hi v)"
  unfolding clamp_score_def at_least_def
  using clamp_in_range [OF ToNumber_numeric [OF assms(1)] assms(2)] by simp

text \<open>
  A score that is a string without a number in it: when its conversion is
  \<open>NaN\<close>, so is the score after \<open>Math.max\<close> and \<open>Math.min\<close>.
\<close>

lemma clamp_score_not_a_number:
  "conv_number w (JString ''high'') = NaN \<Longrightarrow> clamp_score w hi (Some (JString ''high'')) = NaN"
  by (simp add: clamp_score_def at_least_def or_default_def falsy_def ToNumber_def
      Math_min_def Math_max_def)

lemma key_unusable_fewer:
  "\<not> key_unusable k [a, b] \<Longrightarrow> \<not> key_unusable k [a]"
  by (auto simp: key_unusable_def split: option.splits)

text \<open>After the check of the key at the start of the call, the client is there.\<close>

lemma getGeminiClient_after_check:
  assumes "\<not> key_unusable (api_key w) [''your_gemini_api_key_here'', ''default_key'']"
  shows "getGeminiClient w st = Inr (st\<lparr>genAI := True\<rparr>)"
  using key_unusable_fewer [OF assms] by (cases "genAI st") (simp_all add: getGeminiClient_def)

lemma gemini_try_no_key:
  "key_unusable (api_key w) [''your_gemini_api_key_here'', ''default_key''] \<Longrightarrow>
     gemini_try w st resume jdText = (Inr (getFallbackATSScore resume jdText), st)"
  by (simp add: gemini_try_def)

lemma gemini_try_no_quota:
  assumes "\<not> fst (checkQuotaLimit (toDateString w) (quota_state st))"
  shows "fst (gemini_try w st resume jdText) = Inr (getFallbackATSScore resume jdText)"
proof -
  obtain q1 where "checkQuotaLimit (toDateString w) (quota_state st) = (False, q1)"
    using assms by (cases "checkQuotaLimit (toDateString w) (quota_state st)") simp
  then show ?thesis
    by (simp add: gemini_try_def)
qed

lemma gemini_try_called:
  assumes key: "\<not> key_unusable (api_key w) [''your_gemini_api_key_here'', ''default_key'']"
    and cap: "fst (checkQuotaLimit (toDateString w) (quota_state st))"
  shows "fst (gemini_try w st resume jdText)
           = (case generateContent w (convertResumeToText resume) jdText of
                Inl e \<Rightarrow> Inl e
              | Inr reply \<Rightarrow>
                  (case parse_analysis w reply of
                     Inl e \<Rightarrow> Inr (getFallbackATSScore resume jdText)
                   | Inr analysis \<Rightarrow>
                       if analysis = JNull then Inl TypeError else Inr (sanitize w analysis)))"
proof -
  obtain q1 where q: "checkQuotaLimit (toDateString w) (quota_state st) = (True, q1)"
    using cap by (cases "checkQuotaLimit (toDateString w) (quota_state st)") simp
  show ?thesis
  proof (cases "generateContent w (convertResumeToText resume) jdText")
    case (Inl e)
    then show ?thesis
      using key by (simp add: gemini_try_def q getGeminiClient_after_check Let_def)
  next
    case (Inr reply)
    then show ?thesis
      using key
      by (cases "parse_analysis w reply")
         (simp_all add: gemini_try_def q getGeminiClient_after_check Let_def)
  qed
qed

lemma computeGemini_fst:
  "fst (computeGeminiATSScore w st resume jdText)
     = (case fst (gemini_try w st resume jdText) of
          Inl e \<Rightarrow> Inr (getFallbackATSScore resume jdText)
        | Inr r \<Rightarrow> Inr r)"
  by (simp add: computeGeminiATSScore_def split: prod.splits sum.splits)

lemma fallback_readability:
  "grd_score (greadability (gbreakdown (getFallbackATSScore resume jdText))) = Num 8"
  by (simp add: getFallbackATSScore_def Let_def)

lemma example_world_ready:
  "\<not> key_unusable (api_key (example_world reply)) [''your_gemini_api_key_here'', ''default_key'']"
  "fst (checkQuotaLimit (toDateString (example_world reply)) (quota_state fresh_state))"
  "generateContent (example_world reply) resumeText jdText = reply"
  by (simp_all add: example_world_def api_key_def key_unusable_def fresh_state_def
      checkQuotaLimit_def MAX_DAILY_REQUESTS_def)

lemma example_parse_empty_object:
  "parse_analysis (example_world reply) ''{}'' = Inr (JObject [])"
  by (simp add: parse_analysis_def json_match_def example_world_def example_parse_def)

lemma example_parse_response:
  "parse_analysis (example_world reply) example_response = Inr example_analysis"
  by (simp add: parse_analysis_def json_match_def example_world_def example_parse_def
      example_response_def example_json_text_def quoted_def)

lemma example_parse_no_json:
  "parse_analysis (example_world reply) ''I cannot score this.'' = Inl NoJsonFound"
  by (simp add: parse_analysis_def json_match_def)

text \<open>
  C2, as the claim states it, fails: the response \<open>{}\<close> parses and violates the
  schema, and the call does not return the fallback score.  It returns the
  scores of an analysis without fields: the readability score is 0, where the
  fallback score has 8.
\<close>

theorem gemini_schema_violation_counterexample:
  "fst (computeGeminiATSScore (example_world (Inr ''{}'')) fresh_state empty_resume '''')
     = Inr (sanitize (example_world (Inr ''{}'')) (JObject [])) \<and>
   grd_score (greadability (gbreakdown (sanitize (example_world (Inr ''{}'')) (JObject [])))) = Num 0 \<and>
   grd_score (greadability (gbreakdown (getFallbackATSScore empty_resume ''''))) = Num 8 \<and>
   fst (computeGeminiATSScore (example_world (Inr ''{}'')) fresh_state empty_resume '''')
     \<noteq> Inr (getFallbackATSScore empty_resume '''')"
proof -
  let ?w = "example_world (Inr ''{}'')"
  have run: "fst (computeGeminiATSScore ?w fresh_state empty_resume '''')
               = Inr (sanitize ?w (JObject []))"
    by (simp add: computeGemini_fst gemini_try_called example_world_ready
        example_parse_empty_object)
  have zero: "grd_score (greadability (gbreakdown (sanitize ?w (JObject [])))) = Num 0"
    by (simp add: sanitize_def Let_def clamp_score_def at_least_def field_of_def member_of_def
        opt_member_def or_default_def ToNumber_def Math_min_def Math_max_def)
  have "sanitize ?w (JObject []) \<noteq> getFallbackATSScore empty_resume ''''"
    using zero fallback_readability [of empty_resume "''''"] by auto
  then show ?thesis
    using run zero fallback_readability by simp
qed

text \<open>
  C2, amended.  \<open>computeGeminiATSScore\<close> always returns a result and never an
  error.  It returns the fallback score when the key is unusable, when the quota
  has no capacity, when the request to the model fails, and when the response
  holds no JSON text or its JSON text does not parse.  When the response parses
  to an analysis, the result is built from the analysis, whatever fields it has:
  every sub-score whose field is absent, \<open>null\<close>, a boolean or a number lies
  within 0 and its maximum 40, 25, 15, 10 or 10, and the overall score is the sum
  of the five sub-scores.
\<close>

theorem gemini_score_total_and_clamped:
  "(\<exists>r st'. computeGeminiATSScore w st resume jdText = (Inr r, st')) \<and>
   (key_unusable (api_key w) [''your_gemini_api_key_here'', ''default_key''] \<or>
    \<not> fst (checkQuotaLimit (toDateString w) (quota_state st)) \<or>
    (\<exists>e. generateContent w (convertResumeToText resume) jdText = Inl e) \<or>
    (\<exists>reply e. generateContent w (convertResumeToText resume) jdText = Inr reply \<and>
               parse_analysis w reply = Inl e)
    \<longrightarrow> fst (computeGeminiATSScore w st resume jdText)
          = Inr (getFallbackATSScore resume jdText)) \<and>
   (\<forall>reply analysis.
      \<not> key_unusable (api_key w) [''your_gemini_api_key_here'', ''default_key''] \<and>
      fst (checkQuotaLimit (toDateString w) (quota_state st)) \<and>
      generateContent w (convertResumeToText resume) jdText = Inr reply \<and>
      parse_analysis w reply = Inr analysis \<and> analysis \<noteq> JNull
      \<longrightarrow> fst (computeGeminiATSScore w st resume jdText) = Inr (sanitize w analysis)) \<and>
   (\<forall>analysis.
      (numeric_or_absent (field_of analysis ''keywords'' ''score'') \<longrightarrow>
         in_range 0 40 (gkw_score (gkeywords (gbreakdown (sanitize w analysis))))) \<and>
      (numeric_or_absent (field_of analysis ''relevancy'' ''score'') \<longrightarrow>
         in_range 0 25 (grel_score (grelevancy (gbreakdown (sanitize w analysis))))) \<and>
      (numeric_or_absent (field_of analysis ''quantification'' ''score'') \<longrightarrow>
         in_range 0 15 (gq_score (gquantification (gbreakdown (sanitize w analysis))))) \<and>
      (numeric_or_absent (field_of analysis ''formatting'' ''score'') \<longrightarrow>
         in_range 0 10 (gfmt_score (gformatting (gbreakdown (sanitize w analysis))))) \<and>
      (numeric_or_absent (field_of analysis ''readability'' ''score'') \<longrightarrow>
         in_range 0 10 (grd_score (greadability (gbreakdown (sanitize w analysis))))) \<and>
      goverall (sanitize w analysis) = overall_g (gbreakdown (sanitize w analysis)))"
proof (intro conjI)
  show "\<exists>r st'. computeGeminiATSScore w st resume jdText = (Inr r, st')"
    by (cases "gemini_try w st resume jdText")
       (auto simp: computeGeminiATSScore_def split: sum.splits)
next
  show "key_unusable (api_key w) [''your_gemini_api_key_here'', ''default_key''] \<or>
    \<not> fst (checkQuotaLimit (toDateString w) (quota_state st)) \<or>
    (\<exists>e. generateContent w (convertResumeToText resume) jdText = Inl e) \<or>
    (\<exists>reply e. generateContent w (convertResumeToText resume) jdText = Inr reply \<and>
               parse_analysis w reply = Inl e)
    \<longrightarrow> fst (computeGeminiATSScore w st resume jdText)
          = Inr (getFallbackATSScore resume jdText)"
  proof (cases "key_unusable (api_key w) [''your_gemini_api_key_here'', ''default_key'']")
    case True
    then show ?thesis by (simp add: computeGemini_fst gemini_try_no_key)
  next
    case key: False
    show ?thesis
    proof (cases "fst (checkQuotaLimit (toDateString w) (quota_state st))")
      case False
      then show ?thesis by (simp add: computeGemini_fst gemini_try_no_quota)
    next
      case True
      show ?thesis
        using key True by (auto simp: computeGemini_fst gemini_try_called [OF key True])
    qed
  qed
next
  show "\<forall>reply analysis.
      \<not> key_unusable (api_key w) [''your_gemini_api_key_here'', ''default_key''] \<and>
      fst (checkQuotaLimit (toDateString w) (quota_state st)) \<and>
      generateContent w (convertResumeToText resume) jdText = Inr reply \<and>
      parse_analysis w reply = Inr analysis \<and> analysis \<noteq> JNull
      \<longrightarrow> fst (computeGeminiATSScore w st resume jdText) = Inr (sanitize w analysis)"
  proof (intro allI impI)
    fix reply analysis
    assume a: "\<not> key_unusable (api_key w) [''your_gemini_api_key_here'', ''default_key''] \<and>
      fst (checkQuotaLimit (toDateString w) (quota_state st)) \<and>
      generateContent w (convertResumeToText resume) jdText = Inr reply \<and>
      parse_analysis w reply = Inr analysis \<and> analysis \<noteq> JNull"
    then have key: "\<not> key_unusable (api_key w) [''your_gemini_api_key_here'', ''default_key'']"
      and cap: "fst (checkQuotaLimit (toDateString w) (quota_state st))"
      by simp_all
    show "fst (computeGeminiATSScore w st resume jdText) = Inr (sanitize w analysis)"
      using a by (simp add: computeGemini_fst gemini_try_called [OF key cap])
  qed
next
  show "\<forall>analysis.
      (numeric_or_absent (field_of analysis ''keywords'' ''score'') \<longrightarrow>
         in_range 0 40 (gkw_score (gkeywords (gbreakdown (sanitize w analysis))))) \<and>
      (numeric_or_absent (field_of analysis ''relevancy'' ''score'') \<longrightarrow>
         in_range 0 25 (grel_score (grelevancy (gbreakdown (sanitize w analysis))))) \<and>
      (numeric_or_absent (field_of analysis ''quantification'' ''score'') \<longrightarrow>
         in_range 0 15 (gq_score (gquantification (gbreakdown (sanitize w analysis))))) \<and>
      (numeric_or_absent (field_of analysis ''formatting'' ''score'') \<longrightarrow>
         in_range 0 10 (gfmt_score (gformatting (gbreakdown (sanitize w analysis))))) \<and>
      (numeric_or_absent (field_of analysis ''readability'' ''score'') \<longrightarrow>
         in_range 0 10 (grd_score (greadability (gbreakdown (sanitize w analysis))))) \<and>
      goverall (sanitize w analysis) = overall_g (gbreakdown (sanitize w analysis))"
    by (simp add: sanitize_def Let_def clamp_score_in_range)
qed

theorem gemini_score_total_and_clamped_witness:
  "fst (computeGeminiATSScore (example_world (Inr example_response)) fresh_state empty_resume '''')
     = Inr (sanitize (example_world (Inr example_response)) example_analysis) \<and>
   gkw_score (gkeywords (gbreakdown
       (sanitize (example_world (Inr example_response)) example_analysis))) = Num 40 \<and>
   in_range 0 40 (gkw_score (gkeywords (gbreakdown
       (sanitize (example_world (Inr example_response)) example_analysis)))) \<and>
   fst (computeGeminiATSScore (example_world (Inl (ServiceError ''unavailable'')))
          fresh_state empty_resume '''')
     = Inr (getFallbackATSScore empty_resume '''') \<and>
   fst (computeGeminiATSScore (example_world (Inr ''I cannot score this.''))
          fresh_state empty_resume '''')
     = Inr (getFallbackATSScore empty_resume '''')"
proof -
  let ?w = "example_world (Inr example_response)"
  note t = gemini_score_total_and_clamped [of ?w fresh_state empty_resume "''''"]
  have a: "fst (computeGeminiATSScore ?w fresh_state empty_resume '''')
             = Inr (sanitize ?w example_analysis)"
    using t example_world_ready [of "Inr example_response"]
      example_parse_response [of "Inr example_response"]
    by (simp add: example_analysis_def)
  have num: "numeric_or_absent (field_of example_analysis ''keywords'' ''score'')"
    by (simp add: numeric_or_absent_def field_of_def example_analysis_def member_of_def
        opt_member_def)
  have b: "in_range 0 40 (gkw_score (gkeywords (gbreakdown (sanitize ?w example_analysis))))"
    using t num by blast
  have c: "gkw_score (gkeywords (gbreakdown (sanitize ?w example_analysis))) = Num 40"
    by (simp add: sanitize_def Let_def clamp_score_def at_least_def field_of_def member_of_def
        opt_member_def or_default_def ToNumber_def Math_min_def Math_max_def
        example_analysis_def falsy_def)
  have d: "fst (computeGeminiATSScore (example_world (Inl (ServiceError ''unavailable'')))
              fresh_state empty_resume '''') = Inr (getFallbackATSScore empty_resume '''')"
    using gemini_score_total_and_clamped
            [of "example_world (Inl (ServiceError ''unavailable''))" fresh_state empty_resume "''''"]
      example_world_ready(3) [of "Inl (ServiceError ''unavailable'')"]
    by simp
  have e: "fst (computeGeminiATSScore (example_world (Inr ''I cannot score this.''))
              fresh_state empty_resume '''') = Inr (getFallbackATSScore empty_resume '''')"
    using gemini_score_total_and_clamped
            [of "example_world (Inr ''I cannot score this.'')" fresh_state empty_resume "''''"]
      example_world_ready(3) [of "Inr ''I cannot score this.''"]
      example_parse_no_json [of "Inr ''I cannot score this.''"]
    by simp
  show ?thesis using a b c d e by simp
qed

section \<open>Properties of the broadcast registry\<close>






section \<open>Properties of the batch processor\<close>

lemma process_target_store:
  "jobs (store (process_target gen jobId p resume n i jd ls)) = jobs (store ls)"
  by (simp add: process_target_def createCoverLetter_def Let_def split: sum.splits)

lemma process_target_results:
  "map success (results (process_target gen jobId p resume n i jd ls))
     = map success (results ls) @ [target_succeeds gen p resume (i, jd)]"
  "map res_jdId (results (process_target gen jobId p resume n i jd ls))
     = map res_jdId (results ls) @ [jd_id jd]"
  by (simp_all add: process_target_def createCoverLetter_def target_succeeds_def Let_def
      split: sum.splits)

lemma process_target_effects:
  "effects (process_target gen jobId p resume n i jd ls)
     = effects ls @ [progress_of jobId n (i, jd)]"
  by (simp add: process_target_def createCoverLetter_def progress_of_def Let_def
      split: sum.splits)

lemma batch_loop_store:
  "jobs (store (batch_loop gen jobId p resume n i jds ls)) = jobs (store ls)"
  by (induction gen jobId p resume n i jds ls rule: batch_loop.induct)
     (simp_all add: process_target_store)

lemma batch_loop_success:
  "map success (results (batch_loop gen jobId p resume n i jds ls))
     = map success (results ls) @ map (target_succeeds gen p resume) (found_targets i jds)"
  by (induction gen jobId p resume n i jds ls rule: batch_loop.induct)
     (simp_all add: process_target_results)

lemma batch_loop_jdIds:
  "map res_jdId (results (batch_loop gen jobId p resume n i jds ls))
     = map res_jdId (results ls) @ map (\<lambda>t. jd_id (snd t)) (found_targets i jds)"
  by (induction gen jobId p resume n i jds ls rule: batch_loop.induct)
     (simp_all add: process_target_results)

lemma batch_loop_effects:
  "effects (batch_loop gen jobId p resume n i jds ls)
     = effects ls @ map (progress_of jobId n) (found_targets i jds)"
  by (induction gen jobId p resume n i jds ls rule: batch_loop.induct)
     (simp_all add: process_target_effects)

lemma length_found_targets:
  "length (found_targets i jds) = length (filter (\<lambda>j. j \<noteq> None) jds)"
  by (induction i jds rule: found_targets.induct) simp_all

lemma status_updates_simps [simp]:
  "status_updates j [] = []"
  "status_updates j (StatusUpdate j' s # es) = (if j' = j then [s] else []) @ status_updates j es"
  "status_updates j (Broadcast c d # es) = status_updates j es"
  by (simp_all add: status_updates_def)

lemma status_updates_append [simp]:
  "status_updates ident (xs @ ys) = status_updates ident xs @ status_updates ident ys"
  by (simp add: status_updates_def)

lemma status_updates_progress [simp]:
  "status_updates ident (map (progress_of jobId n) ts) = []"
  by (induction ts) (simp_all add: progress_of_def)

lemma progress_events_of_run:
  "progress_events
     (StatusUpdate j ''running'' # map (progress_of jobId n) ts @
        [Broadcast c (Completed pr rs), StatusUpdate j ''completed''])
   = map (\<lambda>t. (''batch:'' @ jobId,
                 Math_round (js_mul (js_div (real (fst t)) (real n)) (Num 100)),
                 jd_title (snd t))) ts"
  by (induction ts) (simp_all add: progress_events_def progress_of_def)

lemma updateJobStatus_tables [simp]:
  "resumes (updateJobStatus st ident stat arts) = resumes st"
  "jobDescriptions (updateJobStatus st ident stat arts) = jobDescriptions st"
  by (simp_all add: updateJobStatus_def split: option.splits)

lemma updateJobStatus_found:
  "jobs st ident = Some job \<Longrightarrow>
     jobs (updateJobStatus st ident stat arts) ident
       = Some (job\<lparr>status := stat, job_artifacts := arts\<rparr>)"
  by (simp add: updateJobStatus_def)

text \<open>
  The run of the processor on a job whose resume is found: the effects, the job
  at the end, and the results, one for each job description that was found.
\<close>

lemma processBatch_found:
  assumes job: "getJob st jobId = Some job"
    and res: "resumes st (resumeId (job_payload job)) = Some r"
  shows "\<exists>rs. processBatchCoverLetters gen jobId st
           = (fst (processBatchCoverLetters gen jobId st),
              StatusUpdate jobId ''running'' #
              map (progress_of jobId (length (jdIds (job_payload job))))
                (found_targets 0 (map (jobDescriptions st) (jdIds (job_payload job)))) @
              [Broadcast (''batch:'' @ jobId) (Completed (Num 100) rs),
               StatusUpdate jobId ''completed'']) \<and>
          getJob (fst (processBatchCoverLetters gen jobId st)) jobId
           = Some (job\<lparr>status := ''completed'', job_artifacts := Some (Results rs)\<rparr>) \<and>
          map success rs
           = map (target_succeeds gen (job_payload job) r)
               (found_targets 0 (map (jobDescriptions st) (jdIds (job_payload job)))) \<and>
          map res_jdId rs
           = map (\<lambda>t. jd_id (snd t))
               (found_targets 0 (map (jobDescriptions st) (jdIds (job_payload job))))"
proof -
  define jds where "jds = map (jobDescriptions st) (jdIds (job_payload job))"
  define ls where "ls = batch_loop gen jobId (job_payload job) r (length jds) 0 jds
                  \<lparr>store = updateJobStatus st jobId ''running'' None, results = [],
                   effects = [StatusUpdate jobId ''running'']\<rparr>"
  have run: "processBatchCoverLetters gen jobId st
           = (updateJobStatus (store ls) jobId ''completed'' (Some (Results (results ls))),
              effects ls @ [Broadcast (''batch:'' @ jobId) (Completed (Num 100) (results ls)),
                            StatusUpdate jobId ''completed''])"
    using job res by (simp add: processBatchCoverLetters_def Let_def ls_def jds_def)
  have "jobs (store ls) jobId = Some (job\<lparr>status := ''running'', job_artifacts := None\<rparr>)"
    using job by (simp add: ls_def batch_loop_store updateJobStatus_found getJob_def)
  then have final: "getJob (fst (processBatchCoverLetters gen jobId st)) jobId
           = Some (job\<lparr>status := ''completed'', job_artifacts := Some (Results (results ls))\<rparr>)"
    by (simp add: run getJob_def updateJobStatus_def)
  have succ: "map success (results ls)
           = map (target_succeeds gen (job_payload job) r) (found_targets 0 jds)"
    by (simp add: ls_def batch_loop_success)
  have ids: "map res_jdId (results ls) = map (\<lambda>t. jd_id (snd t)) (found_targets 0 jds)"
    by (simp add: ls_def batch_loop_jdIds)
  have eff: "effects ls = StatusUpdate jobId ''running'' #
               map (progress_of jobId (length jds)) (found_targets 0 jds)"
    by (simp add: ls_def batch_loop_effects)
  have len: "length jds = length (jdIds (job_payload job))"
    by (simp add: jds_def)
  show ?thesis
    apply (rule exI [of _ "results ls"])
    using final succ ids by (simp add: run eff len jds_def)
qed

lemma enqueued_store_eq:
  "ids \<noteq> [] \<Longrightarrow>
   post_covers_batch (example_request ids) example_store
     = (JobAccepted ''uuid-0'',
        example_store
          \<lparr>jobs := [''uuid-0'' \<mapsto>
              \<lparr>job_id = ''uuid-0'', job_type = ''batch_cover_letters'',
               job_payload = \<lparr>resumeId = ''r1'', jdIds = ids, tone = ''professional'',
                              wordCount = 250, userId = ''anonymous''\<rparr>,
               status = ''pending'', job_artifacts = None\<rparr>],
           uuid_count := 1\<rparr>,
        Some ''uuid-0'')"
  by (simp add: post_covers_batch_def example_request_def createJob_def example_store_def
      show_nat.simps Let_def)

lemma enqueued_store_tables:
  assumes "ids \<noteq> []"
  shows "getJob (enqueued_store ids) ''uuid-0''
           = Some \<lparr>job_id = ''uuid-0'', job_type = ''batch_cover_letters'',
                   job_payload = \<lparr>resumeId = ''r1'', jdIds = ids, tone = ''professional'',
                                  wordCount = 250, userId = ''anonymous''\<rparr>,
                   status = ''pending'', job_artifacts = None\<rparr>"
    and "resumes (enqueued_store ids) = resumes example_store"
    and "jobDescriptions (enqueued_store ids) = jobDescriptions example_store"
  using assms by (simp_all add: enqueued_store_def enqueued_store_eq getJob_def)

text \<open>
  C3.  For a job that is in the store and whose resume is found, the processor
  ends with the job in status \<open>completed\<close>, whatever the per-target operation
  does: the results hold one entry for each job description found, in order, and
  the entry has \<open>success: true\<close> exactly when the operation returned for that
  target.  So for three targets that all resolve, of which the operation fails
  for the second and returns for the other two, the entries are \<open>true\<close>,
  \<open>false\<close>, \<open>true\<close>.
\<close>

theorem batch_target_failure_is_recorded:
  assumes "getJob st jobId = Some job"
    and "resumes st (resumeId (job_payload job)) = Some r"
  shows "\<exists>rs. getJob (fst (processBatchCoverLetters gen jobId st)) jobId
                = Some (job\<lparr>status := ''completed'', job_artifacts := Some (Results rs)\<rparr>) \<and>
              map success rs
                = map (target_succeeds gen (job_payload job) r)
                    (found_targets 0 (map (jobDescriptions st) (jdIds (job_payload job)))) \<and>
              (\<forall>a b c ja jb jc.
                 jdIds (job_payload job) = [a, b, c] \<and>
                 jobDescriptions st a = Some ja \<and> jobDescriptions st b = Some jb \<and>
                 jobDescriptions st c = Some jc \<and>
                 target_succeeds gen (job_payload job) r (0, ja) \<and>
                 \<not> target_succeeds gen (job_payload job) r (1, jb) \<and>
                 target_succeeds gen (job_payload job) r (2, jc)
                 \<longrightarrow> map success rs = [True, False, True])"
proof -
  obtain rs where rs:
    "getJob (fst (processBatchCoverLetters gen jobId st)) jobId
       = Some (job\<lparr>status := ''completed'', job_artifacts := Some (Results rs)\<rparr>)"
    "map success rs
       = map (target_succeeds gen (job_payload job) r)
           (found_targets 0 (map (jobDescriptions st) (jdIds (job_payload job))))"
    using processBatch_found [OF assms, of gen] by blast
  have "\<forall>a b c ja jb jc.
          jdIds (job_payload job) = [a, b, c] \<and>
          jobDescriptions st a = Some ja \<and> jobDescriptions st b = Some jb \<and>
          jobDescriptions st c = Some jc \<and>
          target_succeeds gen (job_payload job) r (0, ja) \<and>
          \<not> target_succeeds gen (job_payload job) r (1, jb) \<and>
          target_succeeds gen (job_payload job) r (2, jc)
          \<longrightarrow> map success rs = [True, False, True]"
    using rs(2) by (auto simp: numeral_2_eq_2)
  with rs show ?thesis by blast
qed

theorem batch_target_failure_is_recorded_witness:
  "job_status (fst (processBatchCoverLetters fails_second ''uuid-0''
                      (enqueued_store [''a'', ''b'', ''c'']))) ''uuid-0'' = Some ''completed'' \<and>
   result_flags (fst (processBatchCoverLetters fails_second ''uuid-0''
                        (enqueued_store [''a'', ''b'', ''c'']))) ''uuid-0''
     = Some [True, False, True]"
proof -
  let ?st = "enqueued_store [''a'', ''b'', ''c'']"
  let ?job = "\<lparr>job_id = ''uuid-0'', job_type = ''batch_cover_letters'',
               job_payload = \<lparr>resumeId = ''r1'', jdIds = [''a'', ''b'', ''c''],
                              tone = ''professional'', wordCount = 250, userId = ''anonymous''\<rparr>,
               status = ''pending'', job_artifacts = None\<rparr>"
  let ?r = "\<lparr>resume_id = ''r1'', resume_json = example_resume\<rparr>"
  have job: "getJob ?st ''uuid-0'' = Some ?job"
    by (simp add: enqueued_store_tables)
  have res: "resumes ?st (resumeId (job_payload ?job)) = Some ?r"
    by (simp add: enqueued_store_tables example_store_def)
  obtain rs where rs:
    "getJob (fst (processBatchCoverLetters fails_second ''uuid-0'' ?st)) ''uuid-0''
       = Some (?job\<lparr>status := ''completed'', job_artifacts := Some (Results rs)\<rparr>)"
    "map success rs
       = map (target_succeeds fails_second (job_payload ?job) ?r)
           (found_targets 0 (map (jobDescriptions ?st) (jdIds (job_payload ?job))))"
    using batch_target_failure_is_recorded [OF job res, of fails_second]
    by (elim exE conjE) (rule that, assumption+)
  have "map success rs = [True, False, True]"
    unfolding rs(2)
    by (simp add: enqueued_store_tables example_store_def target_succeeds_def fails_second_def)
  then show ?thesis
    using rs(1) by (simp add: job_status_def result_flags_def)
qed

text \<open>
  C10.  For a job that is in the store and whose resume is found, the results
  and the progress messages are those of the job descriptions that were found:
  a target whose lookup returned \<open>undefined\<close> has no entry in the results and no
  progress message.  The job still ends in status \<open>completed\<close>, and when a
  target is missing the results are fewer than the targets.
\<close>

theorem missing_target_is_skipped:
  assumes "getJob st jobId = Some job"
    and "resumes st (resumeId (job_payload job)) = Some r"
  shows "\<exists>rs. getJob (fst (processBatchCoverLetters gen jobId st)) jobId
                = Some (job\<lparr>status := ''completed'', job_artifacts := Some (Results rs)\<rparr>) \<and>
              map res_jdId rs
                = map (\<lambda>t. jd_id (snd t))
                    (found_targets 0 (map (jobDescriptions st) (jdIds (job_payload job)))) \<and>
              length rs
                = length (filter (\<lambda>j. j \<noteq> None)
                            (map (jobDescriptions st) (jdIds (job_payload job)))) \<and>
              progress_events (snd (processBatchCoverLetters gen jobId st))
                = map (\<lambda>t. (''batch:'' @ jobId,
                              Math_round (js_mul (js_div (real (fst t))
                                 (real (length (jdIds (job_payload job))))) (Num 100)),
                              jd_title (snd t)))
                    (found_targets 0 (map (jobDescriptions st) (jdIds (job_payload job)))) \<and>
              (None \<in> set (map (jobDescriptions st) (jdIds (job_payload job)))
                 \<longrightarrow> length rs < length (jdIds (job_payload job)))"
proof -
  let ?jds = "map (jobDescriptions st) (jdIds (job_payload job))"
  obtain rs where run: "processBatchCoverLetters gen jobId st
           = (fst (processBatchCoverLetters gen jobId st),
              StatusUpdate jobId ''running'' #
              map (progress_of jobId (length (jdIds (job_payload job)))) (found_targets 0 ?jds) @
              [Broadcast (''batch:'' @ jobId) (Completed (Num 100) rs),
               StatusUpdate jobId ''completed''])"
    and final: "getJob (fst (processBatchCoverLetters gen jobId st)) jobId
           = Some (job\<lparr>status := ''completed'', job_artifacts := Some (Results rs)\<rparr>)"
    and ids: "map res_jdId rs = map (\<lambda>t. jd_id (snd t)) (found_targets 0 ?jds)"
    using processBatch_found [OF assms, of gen]
    by (elim exE conjE) (rule that, assumption+)
  have "length (map res_jdId rs) = length (found_targets 0 ?jds)"
    by (simp add: ids)
  then have len: "length rs = length (filter (\<lambda>j. j \<noteq> None) ?jds)"
    by (simp add: length_found_targets)
  have ev: "progress_events (snd (processBatchCoverLetters gen jobId st))
      = map (\<lambda>t. (''batch:'' @ jobId,
                    Math_round (js_mul (js_div (real (fst t))
                       (real (length (jdIds (job_payload job))))) (Num 100)),
                    jd_title (snd t))) (found_targets 0 ?jds)"
    by (subst run) (simp add: progress_events_of_run)
  have less: "None \<in> set ?jds \<longrightarrow> length rs < length (jdIds (job_payload job))"
  proof
    assume "None \<in> set ?jds"
    then have "length (filter (\<lambda>j. j \<noteq> None) ?jds) < length ?jds"
      by (intro length_filter_less [of None]) simp_all
    then show "length rs < length (jdIds (job_payload job))"
      by (simp add: len)
  qed
  show ?thesis
    using final ids len ev less by blast
qed

theorem missing_target_is_skipped_witness:
  "job_status (fst (processBatchCoverLetters fails_second ''uuid-0''
                      (enqueued_store [''a'', ''zz'', ''c'']))) ''uuid-0'' = Some ''completed'' \<and>
   map_option length (result_flags (fst (processBatchCoverLetters fails_second ''uuid-0''
                        (enqueued_store [''a'', ''zz'', ''c'']))) ''uuid-0'') = Some 2 \<and>
   map (\<lambda>e. snd (snd e)) (progress_events (snd (processBatchCoverLetters fails_second ''uuid-0''
                        (enqueued_store [''a'', ''zz'', ''c''])))) = [''Frontend'', ''Data'']"
proof -
  let ?st = "enqueued_store [''a'', ''zz'', ''c'']"
  let ?job = "\<lparr>job_id = ''uuid-0'', job_type = ''batch_cover_letters'',
               job_payload = \<lparr>resumeId = ''r1'', jdIds = [''a'', ''zz'', ''c''],
                              tone = ''professional'', wordCount = 250, userId = ''anonymous''\<rparr>,
               status = ''pending'', job_artifacts = None\<rparr>"
  let ?r = "\<lparr>resume_id = ''r1'', resume_json = example_resume\<rparr>"
  have job: "getJob ?st ''uuid-0'' = Some ?job"
    by (simp add: enqueued_store_tables)
  have res: "resumes ?st (resumeId (job_payload ?job)) = Some ?r"
    by (simp add: enqueued_store_tables example_store_def)
  have jds: "map (jobDescriptions ?st) (jdIds (job_payload ?job))
               = [Some (example_jd ''a'' ''Frontend''), None, Some (example_jd ''c'' ''Data'')]"
    by (simp add: enqueued_store_tables example_store_def)
  obtain rs where rs:
    "getJob (fst (processBatchCoverLetters fails_second ''uuid-0'' ?st)) ''uuid-0''
       = Some (?job\<lparr>status := ''completed'', job_artifacts := Some (Results rs)\<rparr>)"
    "length rs = length (filter (\<lambda>j. j \<noteq> None)
                            (map (jobDescriptions ?st) (jdIds (job_payload ?job))))"
    "progress_events (snd (processBatchCoverLetters fails_second ''uuid-0'' ?st))
       = map (\<lambda>t. (''batch:'' @ ''uuid-0'',
                     Math_round (js_mul (js_div (real (fst t))
                       (real (length (jdIds (job_payload ?job))))) (Num 100)),
                     jd_title (snd t)))
           (found_targets 0 (map (jobDescriptions ?st) (jdIds (job_payload ?job))))"
    using missing_target_is_skipped [OF job res, of fails_second]
    by (elim exE conjE) (rule that, assumption+)
  have "length rs = 2"
    unfolding rs(2) jds by simp
  moreover have "map (\<lambda>e. snd (snd e))
       (progress_events (snd (processBatchCoverLetters fails_second ''uuid-0'' ?st)))
       = [''Frontend'', ''Data'']"
    unfolding rs(3) jds by (simp add: example_jd_def)
  ultimately show ?thesis
    using rs(1) by (simp add: job_status_def result_flags_def)
qed

text \<open>
  C9.  When the handler of the batch request accepts a request, it has created
  the job in status \<open>pending\<close> and returns its identifier; the job is read in
  status \<open>pending\<close> in the store the handler leaves, before the processor runs.
  The processor, run on that store for that job, writes the status \<open>running\<close>
  and then exactly one of \<open>completed\<close> and \<open>error\<close>, and nothing after it;
  the job ends in the status written last.
\<close>

theorem job_lifecycle:
  assumes "post_covers_batch req st = (JobAccepted ident, st', scheduled)"
  shows "scheduled = Some ident \<and>
         job_status st' ident = Some ''pending'' \<and>
         (status_updates ident (snd (processBatchCoverLetters gen ident st'))
            = [''running'', ''completed''] \<and>
          job_status (fst (processBatchCoverLetters gen ident st')) ident = Some ''completed''
          \<or>
          status_updates ident (snd (processBatchCoverLetters gen ident st'))
            = [''running'', ''error''] \<and>
          job_status (fst (processBatchCoverLetters gen ident st')) ident = Some ''error'')"
proof -
  obtain ids where ids: "body_jdIds req = Some ids" "ids \<noteq> []"
    using assms by (auto simp: post_covers_batch_def split: option.splits if_splits)
  define p where "p = \<lparr>resumeId = body_resumeId req, jdIds = ids,
                     tone = (case body_tone req of None \<Rightarrow> ''professional'' | Some t \<Rightarrow> t),
                     wordCount = (case body_wordCount req of None \<Rightarrow> 250 | Some n \<Rightarrow> n),
                     userId = (case header_user_id req of
                                 None \<Rightarrow> ''anonymous''
                               | Some u \<Rightarrow> if u = [] then ''anonymous'' else u)\<rparr>"
  define job where "job = \<lparr>job_id = uuid_source st (uuid_count st),
                       job_type = ''batch_cover_letters'', job_payload = p,
                       status = ''pending'', job_artifacts = None\<rparr>"
  have post: "post_covers_batch req st
                = (JobAccepted (uuid_source st (uuid_count st)),
                   st\<lparr>jobs := (jobs st)(uuid_source st (uuid_count st) \<mapsto> job),
                      uuid_count := uuid_count st + 1\<rparr>,
                   Some (uuid_source st (uuid_count st)))"
    using ids by (simp add: post_covers_batch_def createJob_def Let_def job_def p_def)
  from assms post have ident: "ident = uuid_source st (uuid_count st)"
    and st': "st' = st\<lparr>jobs := (jobs st)(ident \<mapsto> job), uuid_count := uuid_count st + 1\<rparr>"
    and sched: "scheduled = Some ident"
    by auto
  have found: "getJob st' ident = Some job"
    by (simp add: st' getJob_def)
  have pending: "job_status st' ident = Some ''pending''"
    by (simp add: job_status_def found job_def)
  show ?thesis
  proof (cases "resumes st' (resumeId (job_payload job))")
    case None
    have "processBatchCoverLetters gen ident st'
            = (updateJobStatus (updateJobStatus st' ident ''running'' None) ident ''error''
                 (Some (Failure ''Resume not found'')),
               [StatusUpdate ident ''running'', StatusUpdate ident ''error''])"
      using found None by (simp add: processBatchCoverLetters_def Let_def)
    moreover have "job_status (updateJobStatus (updateJobStatus st' ident ''running'' None)
                      ident ''error'' (Some (Failure ''Resume not found''))) ident = Some ''error''"
      using found by (simp add: job_status_def getJob_def updateJobStatus_def)
    ultimately show ?thesis
      using sched pending by simp
  next
    case (Some r)
    obtain rs where run: "processBatchCoverLetters gen ident st'
           = (fst (processBatchCoverLetters gen ident st'),
              StatusUpdate ident ''running'' #
              map (progress_of ident (length (jdIds (job_payload job))))
                (found_targets 0 (map (jobDescriptions st') (jdIds (job_payload job)))) @
              [Broadcast (''batch:'' @ ident) (Completed (Num 100) rs),
               StatusUpdate ident ''completed''])"
      and final: "getJob (fst (processBatchCoverLetters gen ident st')) ident
           = Some (job\<lparr>status := ''completed'', job_artifacts := Some (Results rs)\<rparr>)"
      using processBatch_found [OF found Some, of gen]
      by (elim exE conjE) (rule that, assumption+)
    have "status_updates ident (snd (processBatchCoverLetters gen ident st'))
            = [''running'', ''completed'']"
      by (subst run) simp
    moreover have "job_status (fst (processBatchCoverLetters gen ident st')) ident
                     = Some ''completed''"
      by (simp add: job_status_def final)
    ultimately show ?thesis
      using sched pending by simp
  qed
qed

theorem job_lifecycle_witness:
  "job_status (enqueued_store [''a'', ''b'', ''c'']) ''uuid-0'' = Some ''pending'' \<and>
   status_updates ''uuid-0''
     (snd (processBatchCoverLetters fails_second ''uuid-0'' (enqueued_store [''a'', ''b'', ''c''])))
     = [''running'', ''completed''] \<and>
   job_status
     (fst (processBatchCoverLetters fails_second ''uuid-0'' (enqueued_store [''a'', ''b'', ''c''])))
     ''uuid-0'' = Some ''completed''"
proof -
  let ?st = "enqueued_store [''a'', ''b'', ''c'']"
  have post: "post_covers_batch (example_request [''a'', ''b'', ''c'']) example_store
                = (JobAccepted ''uuid-0'', ?st, Some ''uuid-0'')"
    by (simp add: enqueued_store_def enqueued_store_eq)
  note t = job_lifecycle [OF post, of fails_second]
  have "status_updates ''uuid-0'' (snd (processBatchCoverLetters fails_second ''uuid-0'' ?st))
          \<noteq> [''running'', ''error'']"
    by (simp add: processBatchCoverLetters_def enqueued_store_tables example_store_def Let_def
        status_updates_def)
  with t show ?thesis by blast
qed

end
